theory Spec2Isabelle
  imports Complex_Main "HOL-Library.Multiset"
begin

section \<open>Values and errors shared by the helpers of utils.py\<close>

text \<open>
  Scores, molecular weights and receptor values are Python floats. A finite float is
  read as the real number it denotes; \<open>NaN\<close> is kept apart because every ordered
  comparison and every equality test with it is false, which decides branches of the
  code. Infinities are not represented.
\<close>

datatype pyfloat = Num real | NaN

fun py_lt :: "pyfloat \<Rightarrow> pyfloat \<Rightarrow> bool" where
  "py_lt (Num a) (Num b) = (a < b)"
| "py_lt _ _ = False"

fun py_ge :: "pyfloat \<Rightarrow> pyfloat \<Rightarrow> bool" where
  "py_ge (Num a) (Num b) = (b \<le> a)"
| "py_ge _ _ = False"

text \<open>
  Every exception the helpers can meet is a value. \<open>External\<close> stands for whatever an
  injected capability (the model, the featurizer, the chemistry toolkit) raises.
\<close>

datatype error =
    ZeroDivisionError
  | KeyError string
  | NameError string
  | AttributeError string
  | TypeError
  | IndexError
  | ValueError
  | External string

section \<open>fit_best_model: the early-stopping trainer\<close>

text \<open>
  The model object is opaque: \<open>'m\<close> is its internal state and \<open>'d\<close> the type of a
  dataset. \<open>fit\<close> is \<^verbatim>\<open>model.fit(dataset, nb_epoch=1)\<close>, which mutates the model, and
  \<open>evaluate\<close> is \<^verbatim>\<open>model.evaluate(dataset, metric, transformers)[metric[0].name]\<close>, the
  named score the loop reads. Either may raise. The metric argument is taken to be a
  non-empty list of named metrics, so that reading \<^verbatim>\<open>metric[0].name\<close> itself does not raise
  (a lookup that fails inside \<open>evaluate\<close> is one of its exceptions), and
  \<^verbatim>\<open>save_checkpoint\<close> and \<^verbatim>\<open>print\<close> are taken not to raise.
\<close>

record ('m, 'd) model_ops =
  fit :: "'m \<Rightarrow> 'd \<Rightarrow> error + 'm"
  evaluate :: "'m \<Rightarrow> 'd \<Rightarrow> error + pyfloat"

text \<open>What the function prints, one constructor per \<^verbatim>\<open>print\<close> call of the source.\<close>

datatype msg =
    EpochBanner int int
  | ValidScores pyfloat
  | EarlyStopping int
  | BestModel "int option" "pyfloat option"

text \<open>
  The local variables of the function, the model it mutates, the checkpoint files written
  (path and model snapshot, in the order of the writes) and the printed output.
  \<open>epoch\<close> is the loop variable: unbound before the first iteration, and left at its last
  value when the loop ends.
\<close>

record 'm trainer =
  model :: 'm
  best_score :: "pyfloat option"
  best_epoch :: "int option"
  list_scores :: "(int \<times> pyfloat \<times> pyfloat) list"
  wait :: int
  epoch :: "int option"
  checkpoints :: "(string \<times> 'm) list"
  stdout :: "msg list"

datatype flow = Continue | Break | Raise error

datatype outcome = Exhausted | StoppedEarly | Raised error

definition save_checkpoint :: "string \<Rightarrow> 'm \<Rightarrow> (string \<times> 'm) list \<Rightarrow> (string \<times> 'm) list" where
  "save_checkpoint model_dir m files = files @ [(model_dir, m)]"

text \<open>\<^verbatim>\<open>range(n)\<close>: the integers from 0 to n - 1, none when n is not positive.\<close>

definition py_range :: "int \<Rightarrow> int list" where
  "py_range n = [0..n - 1]"

text \<open>
  One pass through the body of \<^verbatim>\<open>for epoch in range(nb_epoch)\<close>, lines 152 to 174, for
  the loop index \<open>e\<close>. The modulo is Python's floor modulo, which is \<open>mod\<close> on \<open>int\<close>;
  it raises when \<open>interval\<close> is 0, after the model has been fitted.
\<close>

definition epoch_body ::
  "('m, 'd) model_ops \<Rightarrow> 'd \<Rightarrow> 'd \<Rightarrow> int \<Rightarrow> int \<Rightarrow> int \<Rightarrow> int \<Rightarrow> 'm trainer
     \<Rightarrow> flow \<times> 'm trainer" where
  "epoch_body ops train_dataset valid_dataset nb_epoch patience interval e s0 =
    (let s1 = s0\<lparr>epoch := Some e, stdout := stdout s0 @ [EpochBanner (e + 1) nb_epoch]\<rparr> in
     case fit ops (model s1) train_dataset of
       Inl err \<Rightarrow> (Raise err, s1)
     | Inr m \<Rightarrow>
        (let s2 = s1\<lparr>model := m\<rparr> in
         if interval = 0 then (Raise ZeroDivisionError, s2)
         else if (e + 1) mod interval = 0 then
           (case evaluate ops m valid_dataset of
              Inl err \<Rightarrow> (Raise err, s2)
            | Inr valid_score \<Rightarrow>
               (let s3 = s2\<lparr>stdout := stdout s2 @ [ValidScores valid_score]\<rparr> in
                case evaluate ops m train_dataset of
                  Inl err \<Rightarrow> (Raise err, s3)
                | Inr training_score \<Rightarrow>
                   (let s4 = s3\<lparr>list_scores :=
                                   list_scores s3 @ [(e + 1, valid_score, training_score)]\<rparr> in
                    if (case best_score s4 of None \<Rightarrow> True
                        | Some b \<Rightarrow> py_lt valid_score b)
                    then (Continue,
                          s4\<lparr>best_score := Some valid_score,
                             best_epoch := Some (e + 1),
                             checkpoints := save_checkpoint ''model.ckpt'' m (checkpoints s4),
                             wait := 0\<rparr>)
                    else
                      (let s5 = s4\<lparr>wait := wait s4 + 1\<rparr> in
                       if wait s5 \<ge> patience
                       then (Break, s5\<lparr>stdout := stdout s5 @ [EarlyStopping (e + 1)]\<rparr>)
                       else (Continue, s5)))))
         else (Continue, s2)))"

text \<open>The loop over the epochs still to run: it ends when they are used up, at a
  \<^verbatim>\<open>break\<close>, or at the first exception.\<close>

fun for_epochs ::
  "('m, 'd) model_ops \<Rightarrow> 'd \<Rightarrow> 'd \<Rightarrow> int \<Rightarrow> int \<Rightarrow> int \<Rightarrow> int list \<Rightarrow> 'm trainer
     \<Rightarrow> outcome \<times> 'm trainer" where
  "for_epochs ops train_dataset valid_dataset nb_epoch patience interval [] s = (Exhausted, s)"
| "for_epochs ops train_dataset valid_dataset nb_epoch patience interval (e # es) s =
    (case epoch_body ops train_dataset valid_dataset nb_epoch patience interval e s of
       (Continue, s') \<Rightarrow>
          for_epochs ops train_dataset valid_dataset nb_epoch patience interval es s'
     | (Break, s') \<Rightarrow> (StoppedEarly, s')
     | (Raise err, s') \<Rightarrow> (Raised err, s'))"

definition initial :: "'m \<Rightarrow> 'm trainer" where
  "initial m = \<lparr>model = m, best_score = None, best_epoch = None, list_scores = [],
                wait = 0, epoch = None, checkpoints = [], stdout = []\<rparr>"

text \<open>
  The whole call with its effects: how the loop ended and the final state. After a loop
  that did not raise, the summary line is printed.
\<close>

definition fit_best_model_run ::
  "('m, 'd) model_ops \<Rightarrow> 'm \<Rightarrow> 'd \<Rightarrow> 'd \<Rightarrow> int \<Rightarrow> int \<Rightarrow> int \<Rightarrow> outcome \<times> 'm trainer" where
  "fit_best_model_run ops m train_dataset valid_dataset nb_epoch patience interval =
    (case for_epochs ops train_dataset valid_dataset nb_epoch patience interval
            (py_range nb_epoch) (initial m) of
       (Raised err, s) \<Rightarrow> (Raised err, s)
     | (how, s) \<Rightarrow> (how, s\<lparr>stdout := stdout s @ [BestModel (best_epoch s) (best_score s)]\<rparr>))"

text \<open>The value the caller receives: \<^verbatim>\<open>list_scores\<close>, unless an exception escaped.\<close>

definition fit_best_model ::
  "('m, 'd) model_ops \<Rightarrow> 'm \<Rightarrow> 'd \<Rightarrow> 'd \<Rightarrow> int \<Rightarrow> int \<Rightarrow> int
     \<Rightarrow> error + (int \<times> pyfloat \<times> pyfloat) list" where
  "fit_best_model ops m train_dataset valid_dataset nb_epoch patience interval =
    (case fit_best_model_run ops m train_dataset valid_dataset nb_epoch patience interval of
       (Raised err, s) \<Rightarrow> Inl err
     | (how, s) \<Rightarrow> Inr (list_scores s))"

text \<open>
  A replayed model for concrete runs: its state is the number of epochs fitted so far, and
  the scores of each epoch are read from two tables (the last entry repeats once a table is
  used up, and an empty table gives NaN).
\<close>

datatype split_name = TrainSet | ValidSet

definition table_at :: "real list \<Rightarrow> nat \<Rightarrow> pyfloat" where
  "table_at xs k = (if xs = [] then NaN else Num (xs ! (min (k - 1) (length xs - 1))))"

definition replay_ops :: "real list \<Rightarrow> real list \<Rightarrow> (nat, split_name) model_ops" where
  "replay_ops valid_table train_table =
    \<lparr>fit = (\<lambda>k d. Inr (Suc k)),
     evaluate = (\<lambda>k d. Inr (case d of ValidSet \<Rightarrow> table_at valid_table k
                                 | TrainSet \<Rightarrow> table_at train_table k))\<rparr>"

text \<open>The number of the last epoch the loop entered, counted from 1; 0 when it entered none.\<close>

definition last_epoch :: "'m trainer \<Rightarrow> int" where
  "last_epoch s = (case epoch s of None \<Rightarrow> 0 | Some e \<Rightarrow> e + 1)"

text \<open>The validation scores printed by \<^verbatim>\<open>print(valid_scores)\<close>, in order.\<close>

fun printed_valid :: "msg list \<Rightarrow> pyfloat list" where
  "printed_valid [] = []"
| "printed_valid (ValidScores v # ms) = v # printed_valid ms"
| "printed_valid (_ # ms) = printed_valid ms"

text \<open>
  The bookkeeping as it stands before, at and after the first validation check: nothing is
  recorded before it; right after it the best score and epoch are those of the one entry,
  the counter is 0 and one checkpoint has been written; later a best score exists and the
  first checkpoint written is still the first one.
\<close>

definition first_check_inv :: "'m trainer \<Rightarrow> bool" where
  "first_check_inv s \<longleftrightarrow>
     (case list_scores s of
        [] \<Rightarrow> best_score s = None \<and> checkpoints s = [] \<and> wait s = 0
      | [h] \<Rightarrow> best_score s = Some (fst (snd h)) \<and> best_epoch s = Some (fst h) \<and> wait s = 0 \<and>
               (\<exists>m. checkpoints s = [(''model.ckpt'', m)])
      | h # _ \<Rightarrow> best_score s \<noteq> None \<and> (\<exists>m rest. checkpoints s = (''model.ckpt'', m) # rest))"

text \<open>
  The best score and epoch as the loop keeps them: none before the first check; afterwards
  they are the score and epoch of a recorded entry, no recorded validation score is
  strictly less than the best score, and every checkpoint went to the one path.
\<close>

definition best_inv :: "'m trainer \<Rightarrow> bool" where
  "best_inv s \<longleftrightarrow>
     (list_scores s = [] \<longrightarrow> best_score s = None) \<and>
     (list_scores s \<noteq> [] \<longrightarrow>
        (\<exists>x \<in> set (list_scores s).
            best_score s = Some (fst (snd x)) \<and> best_epoch s = Some (fst x))) \<and>
     (\<forall>x \<in> set (list_scores s). \<forall>b. best_score s = Some b \<longrightarrow> \<not> py_lt (fst (snd x)) b) \<and>
     (\<forall>c \<in> set (checkpoints s). fst c = ''model.ckpt'')"

section \<open>The molecule table\<close>

text \<open>
  A pandas DataFrame, row by row. A cell holds a string, a number, a parsed-molecule handle
  of the chemistry toolkit (\<open>'mol\<close>) or \<^verbatim>\<open>None\<close>. Each row carries its index label and its
  cells by column name; \<open>columns\<close> lists the columns that exist, and a read of any other
  column raises \<^verbatim>\<open>KeyError\<close>.
\<close>

datatype 'mol cell = Str string | Flt pyfloat | Mol 'mol | PyNone

record 'mol row =
  idx :: "'mol cell"
  vals :: "string \<Rightarrow> 'mol cell"

record 'mol dataframe =
  columns :: "string list"
  rows :: "'mol row list"

text \<open>A function applied to each element in order; the first exception ends the pass.\<close>

fun apply_each :: "('a \<Rightarrow> error + 'b) \<Rightarrow> 'a list \<Rightarrow> error + 'b list" where
  "apply_each f [] = Inr []"
| "apply_each f (x # xs) =
    (case f x of
       Inl err \<Rightarrow> Inl err
     | Inr v \<Rightarrow> (case apply_each f xs of Inl err \<Rightarrow> Inl err | Inr vs \<Rightarrow> Inr (v # vs)))"

text \<open>\<^verbatim>\<open>df.set_index(c)\<close>: the column becomes the index and leaves the columns.\<close>

definition set_index :: "string \<Rightarrow> 'mol dataframe \<Rightarrow> error + 'mol dataframe" where
  "set_index c df =
    (if c \<in> set (columns df)
     then Inr \<lparr>columns = removeAll c (columns df),
               rows = map (\<lambda>r. r\<lparr>idx := vals r c\<rparr>) (rows df)\<rparr>
     else Inl (KeyError c))"

text \<open>\<^verbatim>\<open>df[dst] = df[src].apply(f)\<close>, used when \<open>dst\<close> is not yet a column.\<close>

definition apply_column ::
  "string \<Rightarrow> ('mol cell \<Rightarrow> error + 'mol cell) \<Rightarrow> string \<Rightarrow> 'mol dataframe
     \<Rightarrow> error + 'mol dataframe" where
  "apply_column dst f src df =
    (if src \<notin> set (columns df) then Inl (KeyError src)
     else case apply_each (\<lambda>r. f (vals r src)) (rows df) of
            Inl err \<Rightarrow> Inl err
          | Inr cs \<Rightarrow>
              Inr \<lparr>columns = columns df @ [dst],
                   rows = map (\<lambda>(r, c). r\<lparr>vals := (vals r)(dst := c)\<rparr>) (zip (rows df) cs)\<rparr>)"

text \<open>One element of \<^verbatim>\<open>df['MolWt'] < MolWt\<close>: only a number can be compared.\<close>

fun cell_lt :: "'mol cell \<Rightarrow> real \<Rightarrow> error + bool" where
  "cell_lt (Flt x) t = Inr (py_lt x (Num t))"
| "cell_lt _ t = Inl TypeError"

text \<open>\<^verbatim>\<open>df[df[c] < t]\<close>: the boolean mask is computed first, then the rows it marks are kept.\<close>

definition rows_below :: "string \<Rightarrow> real \<Rightarrow> 'mol dataframe \<Rightarrow> error + 'mol dataframe" where
  "rows_below c t df =
    (if c \<notin> set (columns df) then Inl (KeyError c)
     else case apply_each (\<lambda>r. cell_lt (vals r c) t) (rows df) of
            Inl err \<Rightarrow> Inl err
          | Inr below \<Rightarrow> Inr (df\<lparr>rows := map fst (filter snd (zip (rows df) below))\<rparr>))"

section \<open>load_data\<close>

text \<open>
  Lines 19 to 28: the table as loaded, before the weight filter. \<open>read_csv\<close> is
  \<^verbatim>\<open>pd.read_csv\<close>, and \<open>MolFromSmiles\<close> and \<open>DescriptorsMolWt\<close> are the two functions of
  the chemistry toolkit; all three are outside the repository and may raise. The import
  of the toolkit at the head of the function is taken to succeed.
\<close>

definition loaded_table ::
  "(string \<Rightarrow> error + 'mol dataframe) \<Rightarrow> ('mol cell \<Rightarrow> error + 'mol cell)
     \<Rightarrow> ('mol cell \<Rightarrow> error + 'mol cell) \<Rightarrow> string \<Rightarrow> bool \<Rightarrow> error + 'mol dataframe" where
  "loaded_table read_csv MolFromSmiles DescriptorsMolWt datafile first_index =
    (case read_csv datafile of
       Inl err \<Rightarrow> Inl err
     | Inr df0 \<Rightarrow>
        (case (if first_index then set_index ''1'' df0 else Inr df0) of
           Inl err \<Rightarrow> Inl err
         | Inr df1 \<Rightarrow>
            (case (if ''molecules'' \<notin> set (columns df1)
                   then apply_column ''molecules'' MolFromSmiles ''SMILES'' df1
                   else Inr df1) of
               Inl err \<Rightarrow> Inl err
             | Inr df2 \<Rightarrow>
                (if ''MolWt'' \<notin> set (columns df2)
                 then apply_column ''MolWt'' DescriptorsMolWt ''molecules'' df2
                 else Inr df2))))"

definition load_data ::
  "(string \<Rightarrow> error + 'mol dataframe) \<Rightarrow> ('mol cell \<Rightarrow> error + 'mol cell)
     \<Rightarrow> ('mol cell \<Rightarrow> error + 'mol cell) \<Rightarrow> string \<Rightarrow> real \<Rightarrow> bool
     \<Rightarrow> error + 'mol dataframe" where
  "load_data read_csv MolFromSmiles DescriptorsMolWt datafile MolWt first_index =
    (case loaded_table read_csv MolFromSmiles DescriptorsMolWt datafile first_index of
       Inl err \<Rightarrow> Inl err
     | Inr df \<Rightarrow> rows_below ''MolWt'' MolWt df)"

text \<open>The molecular weight of a row, when the cell is a number.\<close>

definition weight_of :: "'mol row \<Rightarrow> pyfloat option" where
  "weight_of r = (case vals r ''MolWt'' of Flt w \<Rightarrow> Some w | _ \<Rightarrow> None)"

text \<open>A row passes the filter when its weight is a number strictly below the threshold;
  it is at or above the threshold when its weight is a number that is not.\<close>

definition lighter_than :: "real \<Rightarrow> 'mol row \<Rightarrow> bool" where
  "lighter_than t r = (case weight_of r of Some w \<Rightarrow> py_lt w (Num t) | None \<Rightarrow> False)"

definition at_least :: "real \<Rightarrow> 'mol row \<Rightarrow> bool" where
  "at_least t r = (case weight_of r of Some w \<Rightarrow> py_ge w (Num t) | None \<Rightarrow> False)"

text \<open>A table of five molecules with precomputed handles and weights.\<close>

definition molecule_row :: "nat \<Rightarrow> string \<Rightarrow> real \<Rightarrow> string row" where
  "molecule_row i smiles w =
    \<lparr>idx = Flt (Num (real i)),
     vals = (\<lambda>c. if c = ''SMILES'' then Str smiles
                  else if c = ''molecules'' then Mol smiles
                  else if c = ''MolWt'' then Flt (Num w)
                  else PyNone)\<rparr>"

definition five_molecules :: "string dataframe" where
  "five_molecules =
    \<lparr>columns = [''SMILES'', ''molecules'', ''MolWt''],
     rows = [molecule_row 0 ''C7H16'' 100, molecule_row 1 ''C18H34'' 250,
             molecule_row 2 ''C21H48'' 300, molecule_row 3 ''C32H66'' 450,
             molecule_row 4 ''C36H68'' 500]\<rparr>"

section \<open>receptor_data\<close>

text \<open>One element of \<^verbatim>\<open>df_receptor[receptor_name] == 0.0\<close>.\<close>

fun is_zero :: "'mol cell \<Rightarrow> bool" where
  "is_zero (Flt (Num x)) = (x = 0)"
| "is_zero _ = False"

text \<open>
  Lines 56 to 59: the projection to three columns, then \<^verbatim>\<open>drop\<close> of the index labels
  of the rows whose receptor value is 0.0. \<^verbatim>\<open>drop\<close> works by label, so it removes every row
  that carries one of those labels. The receptor column is a column of its own: for the
  names \<^verbatim>\<open>molecules\<close> and \<^verbatim>\<open>SMILES\<close> the projection would hold a column twice, which is
  outside this model.
\<close>

definition receptor_frame :: "'mol dataframe \<Rightarrow> string \<Rightarrow> error + 'mol dataframe" where
  "receptor_frame df receptor_name =
    (case filter (\<lambda>c. c \<notin> set (columns df)) [receptor_name, ''molecules'', ''SMILES''] of
       c # _ \<Rightarrow> Inl (KeyError c)
     | [] \<Rightarrow>
        (let zero_mask = map (\<lambda>r. is_zero (vals r receptor_name)) (rows df);
             labels = map (\<lambda>(r, b). idx r) (filter snd (zip (rows df) zero_mask))
         in Inr \<lparr>columns = [receptor_name, ''molecules'', ''SMILES''],
                 rows = filter (\<lambda>r. idx r \<notin> set labels) (rows df)\<rparr>))"

text \<open>A NumpyDataset, column by column: features, labels and identifiers (the weights,
  which the function leaves at their default, are left out).\<close>

record ('mol, 'x) dataset =
  ds_X :: "'x list"
  ds_y :: "'mol cell list"
  ds_ids :: "'mol cell list"

text \<open>Reading an array at a list of positions; a position past the end raises.\<close>

definition take_rows :: "'a list \<Rightarrow> nat list \<Rightarrow> error + 'a list" where
  "take_rows xs inds =
    (if \<forall>i \<in> set inds. i < length xs then Inr (map (\<lambda>i. xs ! i) inds) else Inl IndexError)"

definition select :: "('mol, 'x) dataset \<Rightarrow> nat list \<Rightarrow> error + ('mol, 'x) dataset" where
  "select d inds =
    (case take_rows (ds_X d) inds of
       Inl err \<Rightarrow> Inl err
     | Inr xs \<Rightarrow>
        (case take_rows (ds_y d) inds of
           Inl err \<Rightarrow> Inl err
         | Inr ys \<Rightarrow>
            (case take_rows (ds_ids d) inds of
               Inl err \<Rightarrow> Inl err
             | Inr is \<Rightarrow> Inr \<lparr>ds_X = xs, ds_y = ys, ds_ids = is\<rparr>)))"

text \<open>
  The capabilities of the machine-learning library that receptor_data calls; none of them
  is part of the repository.
  \<^item> \<open>featurize\<close> is \<^verbatim>\<open>featurizer.featurize(molecules)\<close>;
  \<^item> \<open>fit_transformer\<close> builds the NormalizationTransformer from the labels of the dataset,
    and \<open>transform_y\<close> is what it then does to one label (features and identifiers are left
    as they are);
  \<^item> \<open>'g\<close> is the state of the process-wide random generator: \<open>reseed\<close> is the state
    that seeding it with an integer leaves, or the error of a seed it refuses, and \<open>draw\<close>
    takes a number for a bound from the generator and gives the state it is left in.
\<close>

record ('g, 't, 'mol, 'x) toolkit =
  featurize :: "'mol cell list \<Rightarrow> error + 'x list"
  fit_transformer :: "'mol cell list \<Rightarrow> error + 't"
  transform_y :: "'t \<Rightarrow> 'mol cell \<Rightarrow> 'mol cell"
  reseed :: "int \<Rightarrow> error + 'g"
  draw :: "'g \<Rightarrow> nat \<Rightarrow> nat \<times> 'g"

text \<open>Lines 61 to 71: the dataset handed to the splitter, with its transformer.\<close>

definition normalized_dataset ::
  "('g, 't, 'mol, 'x) toolkit \<Rightarrow> 'mol dataframe \<Rightarrow> string
     \<Rightarrow> error + (('mol, 'x) dataset \<times> 't)" where
  "normalized_dataset tk df_receptor receptor_name =
    (case featurize tk (map (\<lambda>r. vals r ''molecules'') (rows df_receptor)) of
       Inl err \<Rightarrow> Inl err
     | Inr feats \<Rightarrow>
        (let dataset = \<lparr>ds_X = feats,
                        ds_y = map (\<lambda>r. vals r receptor_name) (rows df_receptor),
                        ds_ids = map (\<lambda>r. vals r ''SMILES'') (rows df_receptor)\<rparr>
         in case fit_transformer tk (ds_y dataset) of
              Inl err \<Rightarrow> Inl err
            | Inr transformer \<Rightarrow>
                Inr (dataset\<lparr>ds_y := map (transform_y tk transformer) (ds_y dataset)\<rparr>,
                     transformer)))"

text \<open>
  Modelled from the spec: \<^verbatim>\<open>RandomSplitter().train_valid_test_split\<close> belongs to the
  machine-learning library and is not in the repository. The spec asks for a seeded random
  partitioner over the row positions that gives 80%, 10% and 10% of them to train,
  validation and test and whose assignment the seed alone determines. As in the library,
  the process-wide generator is first seeded with the seed, an integer, whatever state
  \<open>g\<close> it was in, and a seed the generator refuses ends the call with its error; the
  positions are then shuffled by exchanges, the position \<open>k\<close> with one drawn from 0 to
  \<open>k\<close>, for \<open>k\<close> from the last position down to 1; the shuffled positions are cut at
  80% and 90% of their number, rounded down; and each partition is read from the dataset
  at its positions. With no row at all the library raises \<^verbatim>\<open>IndexError\<close>, because the
  empty shuffle is not an array of integers.
\<close>

definition exchange :: "'a list \<Rightarrow> nat \<Rightarrow> nat \<Rightarrow> 'a list" where
  "exchange xs i j = xs[i := xs ! j, j := xs ! i]"

fun shuffle_from :: "('g \<Rightarrow> nat \<Rightarrow> nat \<times> 'g) \<Rightarrow> 'g \<Rightarrow> nat \<Rightarrow> nat list \<Rightarrow> nat list" where
  "shuffle_from drw g 0 xs = xs"
| "shuffle_from drw g (Suc k) xs =
    (case drw g (Suc k) of
       (j, g') \<Rightarrow> shuffle_from drw g' k (exchange xs (Suc k) (j mod Suc (Suc k))))"

definition shuffled_positions :: "('g \<Rightarrow> nat \<Rightarrow> nat \<times> 'g) \<Rightarrow> 'g \<Rightarrow> nat \<Rightarrow> nat list" where
  "shuffled_positions drw g n = shuffle_from drw g (n - 1) [0..<n]"

definition train_valid_test_split ::
  "('g, 't, 'mol, 'x) toolkit \<Rightarrow> 'g \<Rightarrow> ('mol, 'x) dataset \<Rightarrow> int
     \<Rightarrow> error + (('mol, 'x) dataset \<times> ('mol, 'x) dataset \<times> ('mol, 'x) dataset)" where
  "train_valid_test_split tk g dataset seed =
    (case reseed tk seed of
       Inl err \<Rightarrow> Inl err
     | Inr seeded \<Rightarrow>
        (let num_datapoints = length (ds_y dataset);
             train_cutoff = (8 * num_datapoints) div 10;
             valid_cutoff = (9 * num_datapoints) div 10;
             shuffled = shuffled_positions (draw tk) seeded num_datapoints
         in if num_datapoints = 0 then Inl IndexError
            else
              (case select dataset (take train_cutoff shuffled) of
                 Inl err \<Rightarrow> Inl err
               | Inr train_dataset \<Rightarrow>
                  (case select dataset (take (valid_cutoff - train_cutoff)
                                         (drop train_cutoff shuffled)) of
                     Inl err \<Rightarrow> Inl err
                   | Inr valid_dataset \<Rightarrow>
                      (case select dataset (drop valid_cutoff shuffled) of
                         Inl err \<Rightarrow> Inl err
                       | Inr test_dataset \<Rightarrow>
                           Inr (train_dataset, valid_dataset, test_dataset))))))"

text \<open>
  receptor_data, lines 56 to 83. \<open>g\<close> is the state of the process-wide generator when the
  function is called.
\<close>

definition receptor_data ::
  "('g, 't, 'mol, 'x) toolkit \<Rightarrow> 'g \<Rightarrow> 'mol dataframe \<Rightarrow> string \<Rightarrow> int
     \<Rightarrow> error + (('mol, 'x) dataset \<times> ('mol, 'x) dataset \<times> ('mol, 'x) dataset \<times> 't)" where
  "receptor_data tk g df receptor_name seed =
    (case receptor_frame df receptor_name of
       Inl err \<Rightarrow> Inl err
     | Inr df_receptor \<Rightarrow>
        (case normalized_dataset tk df_receptor receptor_name of
           Inl err \<Rightarrow> Inl err
         | Inr (dataset, transformer) \<Rightarrow>
            (case train_valid_test_split tk g dataset seed of
               Inl err \<Rightarrow> Inl err
             | Inr (train_dataset, valid_dataset, test_dataset) \<Rightarrow>
                 Inr (train_dataset, valid_dataset, test_dataset, transformer))))"

text \<open>
  Modelled from the spec: the normalization transformer belongs to the machine-learning
  library and is not in the repository. The spec describes it as statistics (mean and
  variance) fitted once on the labels of the full dataset and applied to every label; here
  it is the usual standard score over numeric labels, with a standard deviation of 0
  replaced by 1.
\<close>

fun cell_num :: "'mol cell \<Rightarrow> real option" where
  "cell_num (Flt (Num x)) = Some x"
| "cell_num _ = None"

definition mean :: "real list \<Rightarrow> real" where
  "mean xs = sum_list xs / real (length xs)"

definition fit_standard_score :: "'mol cell list \<Rightarrow> error + (real \<times> real)" where
  "fit_standard_score ys =
    (if \<forall>c \<in> set ys. cell_num c \<noteq> None
     then (let xs = map (\<lambda>c. case cell_num c of Some x \<Rightarrow> x | None \<Rightarrow> 0) ys;
               m = mean xs;
               sd = sqrt (mean (map (\<lambda>x. (x - m)\<^sup>2) xs))
           in Inr (m, if sd = 0 then 1 else sd))
     else Inl TypeError)"

fun standard_score :: "real \<times> real \<Rightarrow> 'mol cell \<Rightarrow> 'mol cell" where
  "standard_score (m, sd) (Flt (Num x)) = Flt (Num ((x - m) / sd))"
| "standard_score (m, sd) c = c"

text \<open>
  A stand-in for the process-wide generator, for concrete runs: its state is a counter,
  seeding sets the counter to the seed, and a draw gives the counter and adds one to it.
  Like the array library's generator it accepts a seed only from 0 to 2^32 - 1 and raises
  \<^verbatim>\<open>ValueError\<close> for any other.
\<close>

definition counter_seed :: "int \<Rightarrow> error + nat" where
  "counter_seed seed = (if seed < 0 \<or> 2 ^ 32 \<le> seed then Inl ValueError else Inr (nat seed))"

definition counter_draw :: "nat \<Rightarrow> nat \<Rightarrow> nat \<times> nat" where
  "counter_draw g bound = (g, Suc g)"

definition library_toolkit :: "(nat, real \<times> real, string, string) toolkit" where
  "library_toolkit =
    \<lparr>featurize = (\<lambda>mols. Inr (map (\<lambda>c. case c of Mol m \<Rightarrow> m | _ \<Rightarrow> []) mols)),
     fit_transformer = fit_standard_score,
     transform_y = standard_score,
     reseed = counter_seed,
     draw = counter_draw\<rparr>"

text \<open>A table with one receptor column: three docked molecules and one that was not, which
  carries the value 0.0.\<close>

definition docking_row :: "nat \<Rightarrow> string \<Rightarrow> real \<Rightarrow> string row" where
  "docking_row i smiles score =
    \<lparr>idx = Flt (Num (real i)),
     vals = (\<lambda>c. if c = ''SMILES'' then Str smiles
                  else if c = ''molecules'' then Mol smiles
                  else if c = ''P-gp'' then Flt (Num score)
                  else PyNone)\<rparr>"

definition docking_table :: "string dataframe" where
  "docking_table =
    \<lparr>columns = [''SMILES'', ''molecules'', ''P-gp''],
     rows = [docking_row 0 ''CCO'' (-7), docking_row 1 ''CCN'' 0, docking_row 2 ''CCC'' (-8),
             docking_row 3 ''CCS'' (-9)]\<rparr>"

section \<open>set_seed\<close>

text \<open>
  The calls set_seed makes into the numeric backends, and what it leaves behind: the calls
  it attempted, in order, and the lines it printed.
\<close>

datatype backend_call =
    ImportTensorflow
  | TfRandomSetSeed int
  | ImportTorch
  | TorchManualSeed int
  | TorchCudaIsAvailable
  | TorchCudaManualSeedAll int
  | SetCudnnDeterministic bool
  | SetCudnnBenchmark bool
  | ImportNumpy
  | ImportRandom
  | NpRandomSeed int
  | RandomSeed int

datatype event = Attempted backend_call | Printed string

text \<open>The process the function runs in: which calls raise, and whether CUDA is there.\<close>

record backends =
  raises :: "backend_call \<Rightarrow> bool"
  cuda_is_available :: bool

text \<open>Statements run in order; the first one that raises ends the sequence.\<close>

fun run_calls :: "backends \<Rightarrow> backend_call list \<Rightarrow> event list \<Rightarrow> error option \<times> event list" where
  "run_calls env [] evs = (None, evs)"
| "run_calls env (c # cs) evs =
    (if raises env c then (Some (External ''backend''), evs @ [Attempted c])
     else run_calls env cs (evs @ [Attempted c]))"

text \<open>\<^verbatim>\<open>try: body  except: print(message)\<close>: the bare except clause catches every exception.\<close>

definition try_except ::
  "(event list \<Rightarrow> error option \<times> event list) \<Rightarrow> string \<Rightarrow> event list
     \<Rightarrow> error option \<times> event list" where
  "try_except body message evs =
    (case body evs of
       (None, evs') \<Rightarrow> (None, evs')
     | (Some err, evs') \<Rightarrow> (None, evs' @ [Printed message]))"

text \<open>One statement after another: an exception that escapes the first skips the second.\<close>

definition and_then ::
  "(event list \<Rightarrow> error option \<times> event list) \<Rightarrow> (event list \<Rightarrow> error option \<times> event list)
     \<Rightarrow> event list \<Rightarrow> error option \<times> event list" where
  "and_then first second evs =
    (case first evs of
       (None, evs') \<Rightarrow> second evs'
     | (Some err, evs') \<Rightarrow> (Some err, evs'))"

definition tensorflow_block :: "backends \<Rightarrow> int \<Rightarrow> bool \<Rightarrow> backend_call list" where
  "tensorflow_block env seed tensorflow =
    (if tensorflow then [ImportTensorflow, TfRandomSetSeed seed] else [])"

definition pytorch_block :: "backends \<Rightarrow> int \<Rightarrow> bool \<Rightarrow> backend_call list" where
  "pytorch_block env seed pytorch =
    (if pytorch
     then [ImportTorch, TorchManualSeed seed, TorchCudaIsAvailable] @
          (if cuda_is_available env
           then [TorchCudaManualSeedAll seed, SetCudnnDeterministic True,
                 SetCudnnBenchmark False]
           else [])
     else [])"

definition numpy_block :: "int \<Rightarrow> backend_call list" where
  "numpy_block seed = [ImportNumpy, ImportRandom, NpRandomSeed seed, RandomSeed seed]"

definition set_seed :: "backends \<Rightarrow> int \<Rightarrow> bool \<Rightarrow> bool \<Rightarrow> error option \<times> event list" where
  "set_seed env seed tensorflow pytorch =
    and_then
      (try_except (run_calls env (tensorflow_block env seed tensorflow))
         ''Please import Tensorflow as tf to set its seed.'')
      (and_then
         (try_except (run_calls env (pytorch_block env seed pytorch))
            ''Please import PyTorch to set its seed.'')
         (try_except (run_calls env (numpy_block seed))
            ''You must import numpy as np and random to set up seeds.''))
      []"

text \<open>
  A process with every backend installed and no CUDA device. The array library accepts a
  seed only from 0 to 2^32 - 1 and PyTorch only from -2^63 to 2^64 - 1; each raises for
  any other.
\<close>

definition all_installed :: backends where
  "all_installed =
    \<lparr>raises = (\<lambda>c. case c of
                  NpRandomSeed k \<Rightarrow> k < 0 \<or> 2 ^ 32 \<le> k
                | TorchManualSeed k \<Rightarrow> k < - (2 ^ 63) \<or> 2 ^ 64 \<le> k
                | _ \<Rightarrow> False),
     cuda_is_available = False\<rparr>"

text \<open>The same process without PyTorch: \<^verbatim>\<open>import torch\<close> raises.\<close>

definition without_torch :: backends where
  "without_torch = all_installed\<lparr>raises := (\<lambda>c. c = ImportTorch \<or> raises all_installed c)\<rparr>"

section \<open>The plotting helpers\<close>

text \<open>What was drawn on the current figure, one constructor per pyplot call. The import
  of the plotting library is taken to succeed.\<close>

datatype draw =
    PlotLine "pyfloat list" "pyfloat list" string
  | PlotEpochs "int list" "pyfloat list" string
  | Scatter "pyfloat list" "pyfloat list" string
  | SetLabels string string string
  | XTicks "int list"
  | Legend

text \<open>
  A namespace binds names to objects, and an object has attributes. The one below is the
  global namespace of utils.py: the two imported modules and the six functions the module
  defines. None of these objects has an attribute called \<^verbatim>\<open>name\<close>.
\<close>

type_synonym pyobject = "string \<Rightarrow> string option"
type_synonym namespace = "string \<Rightarrow> pyobject option"

definition utils_globals :: namespace where
  "utils_globals name =
    (if name \<in> set [''pd'', ''dc'', ''load_data'', ''receptor_data'', ''set_seed'',
                     ''fit_best_model'', ''plot_predictions'', ''plot_validation'']
     then Some (\<lambda>attribute. None) else None)"

definition lookup_name :: "namespace \<Rightarrow> string \<Rightarrow> error + pyobject" where
  "lookup_name ns name = (case ns name of None \<Rightarrow> Inl (NameError name) | Some obj \<Rightarrow> Inr obj)"

definition getattr :: "pyobject \<Rightarrow> string \<Rightarrow> error + string" where
  "getattr obj attribute =
    (case obj attribute of None \<Rightarrow> Inl (AttributeError attribute) | Some v \<Rightarrow> Inr v)"

text \<open>\<^verbatim>\<open>range(a, b, 4)\<close>.\<close>

definition range_step4 :: "int \<Rightarrow> int \<Rightarrow> int list" where
  "range_step4 a b = filter (\<lambda>k. (k - a) mod 4 = 0) [a..b - 1]"

text \<open>
  plot_validation, lines 193 to 205, run with the global namespace \<open>ns\<close>. The name
  \<^verbatim>\<open>metric\<close> is neither a parameter nor a local variable, so it is looked up in the
  globals. The last line names \<^verbatim>\<open>plt.show\<close> without calling it.
\<close>

definition plot_validation ::
  "namespace \<Rightarrow> (int \<times> pyfloat \<times> pyfloat) list \<Rightarrow> error + draw list" where
  "plot_validation ns trained_model =
    (let epochs = map (\<lambda>x. fst x) trained_model;
         valid_scores = map (\<lambda>x. fst (snd x)) trained_model;
         train_scores = map (\<lambda>x. snd (snd x)) trained_model;
         figure = [PlotEpochs epochs train_scores ''Training'',
                   PlotEpochs epochs valid_scores ''Validation'']
     in case lookup_name ns ''metric'' of
          Inl err \<Rightarrow> Inl err
        | Inr metric \<Rightarrow>
           (case getattr metric ''name'' of
              Inl err \<Rightarrow> Inl err
            | Inr ylabel \<Rightarrow>
               (case epochs of
                  [] \<Rightarrow> Inl ValueError
                | e # es \<Rightarrow>
                    Inr (figure @
                         [SetLabels ''Epochs'' ylabel ''Validation'',
                          XTicks (range_step4 (fold min es e) (fold max es e + 1)),
                          Legend]))))"

text \<open>
  plot_predictions, lines 179 to 190. \<open>predict\<close> is
  \<^verbatim>\<open>model.predict(data, [transformer]).flatten()\<close> and \<open>untransform\<close> is
  \<^verbatim>\<open>transformer.untransform(data.y)\<close>; a scatter of two arrays of different sizes raises.
\<close>

record ('m, 'd, 't) predictor =
  predict :: "'m \<Rightarrow> 'd \<Rightarrow> 't \<Rightarrow> error + pyfloat list"
  untransform :: "'t \<Rightarrow> 'd \<Rightarrow> error + pyfloat list"

definition scatter :: "pyfloat list \<Rightarrow> pyfloat list \<Rightarrow> string \<Rightarrow> error + draw" where
  "scatter xs ys label =
    (if length xs = length ys then Inr (Scatter xs ys label) else Inl ValueError)"

definition plot_predictions ::
  "('m, 'd, 't) predictor \<Rightarrow> 'm \<Rightarrow> 'd \<Rightarrow> 'd \<Rightarrow> 't \<Rightarrow> error + draw list" where
  "plot_predictions lib m training_data test_data transformer =
    (case predict lib m training_data transformer of
       Inl err \<Rightarrow> Inl err
     | Inr train_preds \<Rightarrow>
    (case predict lib m test_data transformer of
       Inl err \<Rightarrow> Inl err
     | Inr test_preds \<Rightarrow>
    (case untransform lib transformer training_data of
       Inl err \<Rightarrow> Inl err
     | Inr train_plot \<Rightarrow>
    (case untransform lib transformer test_data of
       Inl err \<Rightarrow> Inl err
     | Inr test_plot \<Rightarrow>
    (case scatter train_plot train_preds ''train preds'' of
       Inl err \<Rightarrow> Inl err
     | Inr train_points \<Rightarrow>
    (case scatter test_plot test_preds ''test preds'' of
       Inl err \<Rightarrow> Inl err
     | Inr test_points \<Rightarrow>
         Inr [PlotLine train_plot train_plot ''True values'', train_points, test_points,
              Legend]))))))"

section \<open>Facts about the trainer\<close>

lemma py_range_length: "length (py_range n) = nat n"
  by (simp add: py_range_def)

lemma py_range_nth: "k < nat n \<Longrightarrow> py_range n ! k = int k"
  by (simp add: py_range_def)

lemma py_range_take_shift:
  assumes "k \<le> nat n"
  shows "map (\<lambda>e. e + 1) (take k (py_range n)) = [1..int k]"
proof (rule nth_equalityI)
  show "length (map (\<lambda>e. e + 1) (take k (py_range n))) = length [1..int k]"
    using assms by (simp add: py_range_def)
next
  fix j assume "j < length (map (\<lambda>e. e + 1) (take k (py_range n)))"
  then have j: "j < k" by simp
  with assms have "py_range n ! j = int j" by (simp add: py_range_nth)
  with j show "map (\<lambda>e. e + 1) (take k (py_range n)) ! j = [1..int k] ! j"
    using assms by (simp add: py_range_def)
qed

lemma printed_valid_append: "printed_valid (xs @ ys) = printed_valid xs @ printed_valid ys"
  by (induction xs rule: printed_valid.induct) simp_all

text \<open>What one pass through the loop body can do, branch by branch.\<close>

lemma epoch_body_cases [consumes 1, case_names raised skipped improved stalled]:
  assumes "epoch_body ops tr va n p i e s = (fl, s1)"
  obtains
    (raised) err where "fl = Raise err" "list_scores s1 = list_scores s"
      "best_score s1 = best_score s" "best_epoch s1 = best_epoch s" "wait s1 = wait s"
      "checkpoints s1 = checkpoints s"
      "i = 0 \<or> (\<exists>m d. fit ops m d = Inl err) \<or> (\<exists>m d. evaluate ops m d = Inl err)"
  | (skipped) "fl = Continue" "i \<noteq> 0" "(e + 1) mod i \<noteq> 0" "list_scores s1 = list_scores s"
      "best_score s1 = best_score s" "best_epoch s1 = best_epoch s" "wait s1 = wait s"
      "checkpoints s1 = checkpoints s"
      "printed_valid (stdout s1) = printed_valid (stdout s)"
  | (improved) m v t where "fl = Continue" "i \<noteq> 0" "(e + 1) mod i = 0"
      "best_score s = None \<or> (\<exists>b. best_score s = Some b \<and> py_lt v b)"
      "list_scores s1 = list_scores s @ [(e + 1, v, t)]"
      "best_score s1 = Some v" "best_epoch s1 = Some (e + 1)" "wait s1 = 0"
      "checkpoints s1 = checkpoints s @ [(''model.ckpt'', m)]"
      "printed_valid (stdout s1) = printed_valid (stdout s) @ [v]"
  | (stalled) v t b where "fl = (if wait s + 1 \<ge> p then Break else Continue)"
      "i \<noteq> 0" "(e + 1) mod i = 0" "best_score s = Some b" "\<not> py_lt v b"
      "list_scores s1 = list_scores s @ [(e + 1, v, t)]"
      "best_score s1 = Some b" "best_epoch s1 = best_epoch s" "wait s1 = wait s + 1"
      "checkpoints s1 = checkpoints s"
      "printed_valid (stdout s1) = printed_valid (stdout s) @ [v]"
proof (cases "fit ops (model s) tr")
  case (Inl err)
  with assms show ?thesis
    by (intro raised[of err]) (auto simp: epoch_body_def Let_def)
next
  case fitted: (Inr m)
  show ?thesis
  proof (cases "i = 0")
    case True
    with assms fitted show ?thesis
      by (intro raised[of ZeroDivisionError]) (auto simp: epoch_body_def Let_def)
  next
    case nz: False
    show ?thesis
    proof (cases "(e + 1) mod i = 0")
      case False
      with assms fitted nz show ?thesis
        by (intro skipped) (auto simp: epoch_body_def Let_def printed_valid_append)
    next
      case due: True
      show ?thesis
      proof (cases "evaluate ops m va")
        case (Inl err)
        with assms fitted nz due show ?thesis
          by (intro raised[of err]) (auto simp: epoch_body_def Let_def)
      next
        case valid: (Inr v)
        show ?thesis
        proof (cases "evaluate ops m tr")
          case (Inl err)
          with assms fitted nz due valid show ?thesis
            by (intro raised[of err]) (auto simp: epoch_body_def Let_def)
        next
          case training: (Inr t)
          show ?thesis
          proof (cases "best_score s = None \<or> (\<exists>b. best_score s = Some b \<and> py_lt v b)")
            case True
            with assms fitted nz due valid training show ?thesis
              by (intro improved[where m=m and v=v and t=t])
                 (auto simp: epoch_body_def Let_def printed_valid_append save_checkpoint_def)
          next
            case False
            then obtain b where b: "best_score s = Some b" "\<not> py_lt v b" by auto
            with assms fitted nz due valid training show ?thesis
              by (intro stalled[where v=v and t=t and b=b])
                 (auto simp: epoch_body_def Let_def printed_valid_append split: if_splits)
          qed
        qed
      qed
    qed
  qed
qed

lemma epoch_body_epoch:
  "epoch_body ops tr va n p i e s = (fl, s1) \<Longrightarrow> epoch s1 = Some e"
  by (auto simp: epoch_body_def Let_def split: sum.splits option.splits if_splits)

text \<open>A property that every pass keeps holds when the loop is over, however it ends.\<close>

lemma for_epochs_invariant:
  assumes "for_epochs ops tr va n p i es s = (how, s')" and "P s"
    and step: "\<And>e s fl s1. P s \<Longrightarrow> epoch_body ops tr va n p i e s = (fl, s1) \<Longrightarrow> P s1"
  shows "P s'"
  using assms(1,2)
proof (induction es arbitrary: s)
  case Nil
  then show ?case by simp
next
  case (Cons e es)
  obtain fl s1 where body: "epoch_body ops tr va n p i e s = (fl, s1)"
    by (cases "epoch_body ops tr va n p i e s") auto
  have P1: "P s1" using step[OF Cons.prems(2) body] .
  show ?case
  proof (cases fl)
    case Continue
    with body Cons.prems(1) have "for_epochs ops tr va n p i es s1 = (how, s')" by simp
    then show ?thesis using P1 by (rule Cons.IH)
  next
    case Break
    with body Cons.prems(1) P1 show ?thesis by simp
  next
    case (Raise err)
    with body Cons.prems(1) P1 show ?thesis by simp
  qed
qed

text \<open>An early stop is a \<^verbatim>\<open>break\<close> taken in some pass, from a state the loop reached.\<close>

lemma for_epochs_StoppedEarly:
  assumes "for_epochs ops tr va n p i es s = (StoppedEarly, s')" and "P s"
    and step: "\<And>e s fl s1. P s \<Longrightarrow> epoch_body ops tr va n p i e s = (fl, s1) \<Longrightarrow> P s1"
  shows "\<exists>e s0. P s0 \<and> epoch_body ops tr va n p i e s0 = (Break, s')"
  using assms(1,2)
proof (induction es arbitrary: s)
  case Nil
  then show ?case by simp
next
  case (Cons e es)
  obtain fl s1 where body: "epoch_body ops tr va n p i e s = (fl, s1)"
    by (cases "epoch_body ops tr va n p i e s") auto
  have P1: "P s1" using step[OF Cons.prems(2) body] .
  show ?case
  proof (cases fl)
    case Continue
    with body Cons.prems(1) have "for_epochs ops tr va n p i es s1 = (StoppedEarly, s')" by simp
    then show ?thesis using P1 by (rule Cons.IH)
  next
    case Break
    with body Cons.prems show ?thesis by auto
  next
    case (Raise err)
    with body Cons.prems(1) show ?thesis by simp
  qed
qed

text \<open>An exception that ends the loop comes from the modulo or from the model.\<close>

lemma for_epochs_Raised:
  assumes "for_epochs ops tr va n p i es s = (Raised err, s')"
  shows "i = 0 \<or> (\<exists>m d. fit ops m d = Inl err) \<or> (\<exists>m d. evaluate ops m d = Inl err)"
  using assms
proof (induction es arbitrary: s)
  case Nil
  then show ?case by simp
next
  case (Cons e es)
  obtain fl s1 where body: "epoch_body ops tr va n p i e s = (fl, s1)"
    by (cases "epoch_body ops tr va n p i e s") auto
  show ?case
  proof (cases fl)
    case Continue
    with body Cons.prems have "for_epochs ops tr va n p i es s1 = (Raised err, s')" by simp
    then show ?thesis by (rule Cons.IH)
  next
    case Break
    with body Cons.prems show ?thesis by simp
  next
    case (Raise err')
    with body Cons.prems have "fl = Raise err" by simp
    with body show ?thesis by (cases rule: epoch_body_cases) (auto split: if_splits)
  qed
qed

text \<open>
  The history of a loop that did not raise: one entry for each epoch entered whose number
  the interval divides, and each entry's validation score was printed.
\<close>

lemma for_epochs_history:
  assumes "for_epochs ops tr va n p i es s = (how, s')" and "\<forall>err. how \<noteq> Raised err"
  shows "\<exists>k \<le> length es.
        map fst (list_scores s') =
          map fst (list_scores s) @ [x \<leftarrow> map (\<lambda>e. e + 1) (take k es). x mod i = 0] \<and>
        (how = Exhausted \<longrightarrow> k = length es) \<and>
        (k = 0 \<longrightarrow> epoch s' = epoch s) \<and>
        (0 < k \<longrightarrow> epoch s' = Some (es ! (k - 1)))"
  using assms
proof (induction es arbitrary: s)
  case Nil
  then show ?case by auto
next
  case (Cons e es)
  obtain fl s1 where body: "epoch_body ops tr va n p i e s = (fl, s1)"
    by (cases "epoch_body ops tr va n p i e s") auto
  have ep: "epoch s1 = Some e" using body by (rule epoch_body_epoch)
  show ?case
  proof (cases fl)
    case Continue
    with body Cons.prems have run: "for_epochs ops tr va n p i es s1 = (how, s')" by simp
    from Cons.IH[OF run Cons.prems(2)] obtain k where k: "k \<le> length es"
      "map fst (list_scores s') =
          map fst (list_scores s1) @ [x \<leftarrow> map (\<lambda>e. e + 1) (take k es). x mod i = 0]"
      "how = Exhausted \<longrightarrow> k = length es"
      "k = 0 \<longrightarrow> epoch s' = epoch s1"
      "0 < k \<longrightarrow> epoch s' = Some (es ! (k - 1))" by blast
    have sc: "map fst (list_scores s1) =
        map fst (list_scores s) @ (if (e + 1) mod i = 0 then [e + 1] else [])"
      using body Continue by (cases rule: epoch_body_cases) (auto split: if_splits)
    show ?thesis
      apply (rule exI[of _ "Suc k"])
      using k sc ep by (cases k) auto
  next
    case Break
    with body Cons.prems have fin: "how = StoppedEarly" "s' = s1" by auto
    have sc: "map fst (list_scores s1) = map fst (list_scores s) @ [e + 1] \<and> (e + 1) mod i = 0"
      using body Break by (cases rule: epoch_body_cases) (auto split: if_splits)
    show ?thesis
      apply (rule exI[of _ "Suc 0"])
      using fin sc ep by auto
  next
    case (Raise err)
    with body Cons.prems show ?thesis by auto
  qed
qed

lemma for_epochs_printed:
  assumes "for_epochs ops tr va n p i es s = (how, s')" and "\<forall>err. how \<noteq> Raised err"
    and "map (\<lambda>x. fst (snd x)) (list_scores s) = printed_valid (stdout s)"
  shows "map (\<lambda>x. fst (snd x)) (list_scores s') = printed_valid (stdout s')"
  using assms
proof (induction es arbitrary: s)
  case Nil
  then show ?case by simp
next
  case (Cons e es)
  obtain fl s1 where body: "epoch_body ops tr va n p i e s = (fl, s1)"
    by (cases "epoch_body ops tr va n p i e s") auto
  have nr: "\<forall>err. fl \<noteq> Raise err" using body Cons.prems(1,2) by (cases fl) auto
  have keep: "map (\<lambda>x. fst (snd x)) (list_scores s1) = printed_valid (stdout s1)"
    using body nr Cons.prems(3) by (cases rule: epoch_body_cases) auto
  show ?case
  proof (cases fl)
    case Continue
    with body Cons.prems have "for_epochs ops tr va n p i es s1 = (how, s')" by simp
    then show ?thesis using Cons.prems(2) keep by (rule Cons.IH)
  next
    case Break
    with body Cons.prems keep show ?thesis by simp
  next
    case (Raise err)
    with nr show ?thesis by simp
  qed
qed


lemma fit_best_model_run_loop:
  assumes "fit_best_model_run ops m0 tr va n p i = (how, s)"
  shows "\<exists>s0. for_epochs ops tr va n p i (py_range n) (initial m0) = (how, s0) \<and>
           list_scores s = list_scores s0 \<and> best_score s = best_score s0 \<and>
           best_epoch s = best_epoch s0 \<and> wait s = wait s0 \<and> epoch s = epoch s0 \<and>
           checkpoints s = checkpoints s0 \<and> model s = model s0 \<and>
           printed_valid (stdout s) = printed_valid (stdout s0)"
proof -
  obtain how0 s0 where loop: "for_epochs ops tr va n p i (py_range n) (initial m0) = (how0, s0)"
    by (cases "for_epochs ops tr va n p i (py_range n) (initial m0)") auto
  with assms show ?thesis
    by (cases how0) (auto simp: fit_best_model_run_def printed_valid_append)
qed

lemma fit_best_model_returns:
  "fit_best_model ops m0 tr va n p i = Inr hist \<longleftrightarrow>
     (\<exists>how s. fit_best_model_run ops m0 tr va n p i = (how, s) \<and>
        (how = StoppedEarly \<or> how = Exhausted) \<and> hist = list_scores s)"
proof -
  obtain how s where run: "fit_best_model_run ops m0 tr va n p i = (how, s)"
    by (cases "fit_best_model_run ops m0 tr va n p i") auto
  then show ?thesis by (cases how) (auto simp: fit_best_model_def)
qed

text \<open>
  A stretch of the loop in which no validation score beats the best one: the counter goes
  up by one at each check, and the loop stops at the check that takes it to
  \<open>max 1 patience\<close>.
\<close>

lemma for_epochs_stall:
  assumes "for_epochs ops tr va n p i es s = (how, s')"
    and "best_score s = Some b" and "0 \<le> wait s" and "wait s < max 1 p"
  shows "\<exists>new. list_scores s' = list_scores s @ new \<and>
           ((\<forall>x \<in> set new. \<not> py_lt (fst (snd x)) b) \<longrightarrow>
              wait s' = wait s + int (length new) \<and> wait s' \<le> max 1 p \<and>
              (how = StoppedEarly \<longleftrightarrow> wait s' = max 1 p))"
  using assms
proof (induction es arbitrary: s b)
  case Nil
  then show ?case by auto
next
  case (Cons e es)
  obtain fl s1 where body: "epoch_body ops tr va n p i e s = (fl, s1)"
    by (cases "epoch_body ops tr va n p i e s") auto
  from body show ?case
  proof (cases rule: epoch_body_cases)
    case (raised err)
    with body Cons.prems have "how = Raised err" "s' = s1" by auto
    with raised Cons.prems show ?thesis by auto
  next
    case skipped
    with body Cons.prems have run: "for_epochs ops tr va n p i es s1 = (how, s')" by simp
    have "best_score s1 = Some b" "0 \<le> wait s1" "wait s1 < max 1 p"
      using skipped Cons.prems by simp_all
    from Cons.IH[OF run this] skipped show ?thesis by simp
  next
    case (improved m v t)
    with body Cons.prems have run: "for_epochs ops tr va n p i es s1 = (how, s')" by simp
    have lt: "py_lt v b" using improved(4) Cons.prems(2) by auto
    have "best_score s1 = Some v" "0 \<le> wait s1" "wait s1 < max 1 p"
      using improved by simp_all
    from Cons.IH[OF run this] obtain new where "list_scores s' = list_scores s1 @ new"
      by blast
    then have "list_scores s' = list_scores s @ ((e + 1, v, t) # new)"
      using improved by simp
    moreover have "\<not> (\<forall>x \<in> set ((e + 1, v, t) # new). \<not> py_lt (fst (snd x)) b)"
      using lt by simp
    ultimately show ?thesis by blast
  next
    case (stalled v t b')
    show ?thesis
    proof (cases "wait s + 1 \<ge> p")
      case True
      with stalled body Cons.prems have fin: "how = StoppedEarly" "s' = s1" by auto
      have "list_scores s' = list_scores s @ [(e + 1, v, t)]" using fin stalled by simp
      moreover have "wait s' = wait s + int (length [(e + 1, v, t)])"
        using fin stalled by simp
      moreover have "wait s' = max 1 p" using fin stalled True Cons.prems(3,4) by auto
      ultimately show ?thesis using fin by (intro exI[of _ "[(e + 1, v, t)]"]) simp
    next
      case False
      with stalled body Cons.prems have run: "for_epochs ops tr va n p i es s1 = (how, s')"
        by simp
      have "best_score s1 = Some b" "0 \<le> wait s1" "wait s1 < max 1 p"
        using stalled False Cons.prems by auto
      from Cons.IH[OF run this] obtain new where new: "list_scores s' = list_scores s1 @ new"
        "(\<forall>x \<in> set new. \<not> py_lt (fst (snd x)) b) \<longrightarrow>
              wait s' = wait s1 + int (length new) \<and> wait s' \<le> max 1 p \<and>
              (how = StoppedEarly \<longleftrightarrow> wait s' = max 1 p)" by blast
      show ?thesis
        using new stalled by (intro exI[of _ "(e + 1, v, t) # new"]) auto
    qed
  qed
qed

text \<open>The same from the start of the loop, where the first check sets the best score.\<close>

lemma for_epochs_never_improves:
  assumes "for_epochs ops tr va n p i es s = (how, s')"
    and "best_score s = None" and "list_scores s = []" and "wait s = 0"
    and "list_scores s' = h0 # rest"
    and "\<forall>x \<in> set rest. \<not> py_lt (fst (snd x)) (fst (snd h0))"
  shows "wait s' = int (length rest) \<and> wait s' \<le> max 1 p \<and>
         (how = StoppedEarly \<longleftrightarrow> wait s' = max 1 p)"
  using assms
proof (induction es arbitrary: s)
  case Nil
  then show ?case by simp
next
  case (Cons e es)
  obtain fl s1 where body: "epoch_body ops tr va n p i e s = (fl, s1)"
    by (cases "epoch_body ops tr va n p i e s") auto
  from body show ?case
  proof (cases rule: epoch_body_cases)
    case (raised err)
    with body Cons.prems have "s' = s1" by auto
    with raised Cons.prems show ?thesis by simp
  next
    case skipped
    with body Cons.prems have run: "for_epochs ops tr va n p i es s1 = (how, s')" by simp
    have "best_score s1 = None" "list_scores s1 = []" "wait s1 = 0"
      using skipped Cons.prems by simp_all
    from Cons.IH[OF run this Cons.prems(5,6)] show ?thesis .
  next
    case (improved m v t)
    with body Cons.prems have run: "for_epochs ops tr va n p i es s1 = (how, s')" by simp
    have "best_score s1 = Some v" "0 \<le> wait s1" "wait s1 < max 1 p"
      using improved by simp_all
    from for_epochs_stall[OF run this] obtain new where
      new: "list_scores s' = list_scores s1 @ new"
        "(\<forall>x \<in> set new. \<not> py_lt (fst (snd x)) v) \<longrightarrow>
              wait s' = wait s1 + int (length new) \<and> wait s' \<le> max 1 p \<and>
              (how = StoppedEarly \<longleftrightarrow> wait s' = max 1 p)" by blast
    have "h0 = (e + 1, v, t)" "rest = new"
      using new(1) improved Cons.prems(3,5) by simp_all
    with new(2) Cons.prems(6) improved show ?thesis by simp
  next
    case (stalled v t b)
    with Cons.prems show ?thesis by simp
  qed
qed

text \<open>Every pass through the loop body keeps the bookkeeping of the first check.\<close>

lemma first_check_invariant:
  assumes "epoch_body ops tr va n p i e s = (fl, s1)" and inv: "first_check_inv s"
  shows "first_check_inv s1"
  using assms(1)
proof (cases rule: epoch_body_cases)
  case (raised err)
  with inv show ?thesis by (simp add: first_check_inv_def split: list.splits)
next
  case skipped
  with inv show ?thesis by (simp add: first_check_inv_def split: list.splits)
next
  case (improved m v t)
  show ?thesis
  proof (cases "list_scores s")
    case Nil
    with improved inv show ?thesis by (simp add: first_check_inv_def)
  next
    case (Cons h hs)
    with inv obtain m' rest where "checkpoints s = (''model.ckpt'', m') # rest"
      by (cases hs) (auto simp: first_check_inv_def)
    with improved Cons show ?thesis by (cases hs) (simp_all add: first_check_inv_def)
  qed
next
  case (stalled v t b)
  show ?thesis
  proof (cases "list_scores s")
    case Nil
    with stalled inv show ?thesis by (simp add: first_check_inv_def)
  next
    case (Cons h hs)
    with inv obtain m' rest where "checkpoints s = (''model.ckpt'', m') # rest"
      by (cases hs) (auto simp: first_check_inv_def)
    with stalled Cons show ?thesis by (cases hs) (simp_all add: first_check_inv_def)
  qed
qed

lemma break_after_second_check:
  assumes "epoch_body ops tr va n p i e s = (Break, s1)" and inv: "first_check_inv s"
  shows "2 \<le> length (list_scores s1)"
  using assms(1)
proof (cases rule: epoch_body_cases)
  case (stalled v t b)
  with inv have "list_scores s \<noteq> []" by (auto simp: first_check_inv_def)
  with stalled show ?thesis by (cases "list_scores s") simp_all
qed simp_all


lemma py_lt_trans: "py_lt a b \<Longrightarrow> py_lt b c \<Longrightarrow> py_lt a c"
  by (cases a; cases b; cases c) simp_all

lemma py_lt_irrefl: "\<not> py_lt v v"
  by (cases v) simp_all

text \<open>Every pass through the loop body keeps the best score a least recorded score.\<close>

lemma best_invariant:
  assumes "epoch_body ops tr va n p i e s = (fl, s1)" and inv: "best_inv s"
  shows "best_inv s1"
  using assms(1)
proof (cases rule: epoch_body_cases)
  case (raised err)
  with inv show ?thesis by (simp add: best_inv_def)
next
  case skipped
  with inv show ?thesis by (simp add: best_inv_def)
next
  case (improved m v t)
  have old: "\<not> py_lt (fst (snd x)) v" if "x \<in> set (list_scores s)" for x
  proof -
    from that have "list_scores s \<noteq> []" by auto
    with inv obtain b where b: "best_score s = Some b" by (auto simp: best_inv_def)
    with improved(4) have "py_lt v b" by simp
    moreover from inv that b have "\<not> py_lt (fst (snd x)) b" by (simp add: best_inv_def)
    ultimately show ?thesis using py_lt_trans by blast
  qed
  have paths: "\<forall>c \<in> set (checkpoints s). fst c = ''model.ckpt''"
    using inv by (simp add: best_inv_def)
  show ?thesis
    unfolding best_inv_def using improved old paths py_lt_irrefl by auto
next
  case (stalled v t b)
  have some: "list_scores s \<noteq> []"
    using inv stalled(4) by (auto simp: best_inv_def)
  with inv obtain x where x: "x \<in> set (list_scores s)"
    "best_score s = Some (fst (snd x))" "best_epoch s = Some (fst x)"
    by (auto simp: best_inv_def)
  have old: "\<forall>y \<in> set (list_scores s). \<not> py_lt (fst (snd y)) b"
    using inv stalled(4) by (simp add: best_inv_def)
  have paths: "\<forall>c \<in> set (checkpoints s). fst c = ''model.ckpt''"
    using inv by (simp add: best_inv_def)
  show ?thesis
    unfolding best_inv_def using stalled x old paths by auto
qed

section \<open>Claims about fit_best_model\<close>

lemma py_range_10: "py_range 10 = [0, 1, 2, 3, 4, 5, 6, 7, 8, 9]"
  by (simp add: py_range_def upto_rec1)

text \<open>
  Claim C1. With max_epochs = 10, patience = 2 and eval_interval = 1, on a model whose
  validation scores are 5, 4, 3, 3, 3 at the first five epochs (whatever comes after), the
  loop stops early after epoch 5: the model has been fitted five times, the best score is
  the 3 of epoch 3, and the returned history has exactly the five entries of epochs 1 to 5.
\<close>

theorem fit_best_model_example_run:
  assumes "fit ops m0 tr = Inr m1" and "fit ops m1 tr = Inr m2" and "fit ops m2 tr = Inr m3"
    and "fit ops m3 tr = Inr m4" and "fit ops m4 tr = Inr m5"
    and "evaluate ops m1 va = Inr (Num 5)" and "evaluate ops m2 va = Inr (Num 4)"
    and "evaluate ops m3 va = Inr (Num 3)" and "evaluate ops m4 va = Inr (Num 3)"
    and "evaluate ops m5 va = Inr (Num 3)"
    and "evaluate ops m1 tr = Inr t1" and "evaluate ops m2 tr = Inr t2"
    and "evaluate ops m3 tr = Inr t3" and "evaluate ops m4 tr = Inr t4"
    and "evaluate ops m5 tr = Inr t5"
  shows "\<exists>s. fit_best_model_run ops m0 tr va 10 2 1 = (StoppedEarly, s) \<and>
           last_epoch s = 5 \<and> model s = m5 \<and>
           best_score s = Some (Num 3) \<and> best_epoch s = Some 3 \<and> wait s = 2 \<and>
           list_scores s = [(1, Num 5, t1), (2, Num 4, t2), (3, Num 3, t3), (4, Num 3, t4),
                            (5, Num 3, t5)] \<and>
           length (list_scores s) = 5 \<and>
           fit_best_model ops m0 tr va 10 2 1 = Inr (list_scores s)"
  using assms
  by (simp add: fit_best_model_def fit_best_model_run_def py_range_10 initial_def
      epoch_body_def save_checkpoint_def last_epoch_def)

theorem fit_best_model_example_run_witness:
  "\<exists>s. fit_best_model_run (replay_ops [5, 4, 3, 3, 3, 6] [1]) 0 TrainSet ValidSet 10 2 1
          = (StoppedEarly, s) \<and>
       last_epoch s = 5 \<and> model s = 5 \<and>
       best_score s = Some (Num 3) \<and> best_epoch s = Some 3 \<and> wait s = 2 \<and>
       list_scores s = [(1, Num 5, Num 1), (2, Num 4, Num 1), (3, Num 3, Num 1),
                        (4, Num 3, Num 1), (5, Num 3, Num 1)] \<and>
       length (list_scores s) = 5 \<and>
       fit_best_model (replay_ops [5, 4, 3, 3, 3, 6] [1]) 0 TrainSet ValidSet 10 2 1
         = Inr (list_scores s)"
  by (rule fit_best_model_example_run[where ?m1.0 = 1 and ?m2.0 = 2 and ?m3.0 = 3
        and ?m4.0 = 4 and ?m5.0 = 5])
     (simp_all add: replay_ops_def table_at_def)

text \<open>
  Claim C2. At a validation check with validation score \<open>v\<close>, the check counts as an
  improvement exactly when there is no best score yet or \<open>v\<close> is strictly less than the
  best score (for two numbers that is \<open><\<close>, so lower is better, and a score is never
  less than itself, so a tie is no improvement). On an improvement the best score and the
  best epoch become those of this check, the model is saved to the path "model.ckpt", and
  the counter is 0; otherwise all three are left alone and the counter goes up by one.
  Over a whole run this makes the best score the score of a recorded entry that no
  recorded validation score is strictly below, with its epoch as best epoch, and sends
  every checkpoint to "model.ckpt".
\<close>

theorem improvement_is_strict_and_checkpointed:
  "(fit ops (model s) tr = Inr m \<and> interval \<noteq> 0 \<and> (e + 1) mod interval = 0 \<and>
    evaluate ops m va = Inr v \<and> evaluate ops m tr = Inr t \<longrightarrow>
      (\<exists>fl s1. epoch_body ops tr va nb patience interval e s = (fl, s1) \<and>
           list_scores s1 = list_scores s @ [(e + 1, v, t)] \<and>
           (if best_score s = None \<or> (\<exists>b. best_score s = Some b \<and> py_lt v b)
            then fl = Continue \<and> best_score s1 = Some v \<and> best_epoch s1 = Some (e + 1) \<and>
                 checkpoints s1 = checkpoints s @ [(''model.ckpt'', m)] \<and> wait s1 = 0
            else best_score s1 = best_score s \<and> best_epoch s1 = best_epoch s \<and>
                 checkpoints s1 = checkpoints s \<and> wait s1 = wait s + 1) \<and>
           \<not> py_lt v v \<and> (\<forall>a b. py_lt (Num a) (Num b) = (a < b)))) \<and>
   (fit_best_model_run ops m0 tr va nb patience interval = (how, sf) \<and> list_scores sf \<noteq> [] \<longrightarrow>
      (\<exists>x \<in> set (list_scores sf).
          best_score sf = Some (fst (snd x)) \<and> best_epoch sf = Some (fst x)) \<and>
      (\<forall>x \<in> set (list_scores sf). \<forall>b. best_score sf = Some b \<longrightarrow> \<not> py_lt (fst (snd x)) b) \<and>
      (\<forall>c \<in> set (checkpoints sf). fst c = ''model.ckpt''))"
proof (intro conjI impI)
  assume a: "fit ops (model s) tr = Inr m \<and> interval \<noteq> 0 \<and> (e + 1) mod interval = 0 \<and>
    evaluate ops m va = Inr v \<and> evaluate ops m tr = Inr t"
  have tie: "\<not> py_lt v v" by (rule py_lt_irrefl)
  show "\<exists>fl s1. epoch_body ops tr va nb patience interval e s = (fl, s1) \<and>
           list_scores s1 = list_scores s @ [(e + 1, v, t)] \<and>
           (if best_score s = None \<or> (\<exists>b. best_score s = Some b \<and> py_lt v b)
            then fl = Continue \<and> best_score s1 = Some v \<and> best_epoch s1 = Some (e + 1) \<and>
                 checkpoints s1 = checkpoints s @ [(''model.ckpt'', m)] \<and> wait s1 = 0
            else best_score s1 = best_score s \<and> best_epoch s1 = best_epoch s \<and>
                 checkpoints s1 = checkpoints s \<and> wait s1 = wait s + 1) \<and>
           \<not> py_lt v v \<and> (\<forall>a b. py_lt (Num a) (Num b) = (a < b))"
  proof (cases "best_score s")
    case None
    with a tie show ?thesis
      by (simp add: epoch_body_def save_checkpoint_def)
  next
    case (Some b)
    with a tie show ?thesis
      by (auto simp: epoch_body_def save_checkpoint_def Let_def)
  qed
next
  assume a: "fit_best_model_run ops m0 tr va nb patience interval = (how, sf) \<and>
    list_scores sf \<noteq> []"
  then have run: "fit_best_model_run ops m0 tr va nb patience interval = (how, sf)" by simp
  from fit_best_model_run_loop[OF run] obtain s0 where loop:
      "for_epochs ops tr va nb patience interval (py_range nb) (initial m0) = (how, s0)"
    and same: "list_scores sf = list_scores s0" "best_score sf = best_score s0"
      "best_epoch sf = best_epoch s0" "checkpoints sf = checkpoints s0"
    by blast
  have start: "best_inv (initial m0)" by (simp add: best_inv_def initial_def)
  have step: "\<And>e s fl s1. best_inv s \<Longrightarrow>
      epoch_body ops tr va nb patience interval e s = (fl, s1) \<Longrightarrow> best_inv s1"
    by (rule best_invariant)
  have "best_inv s0" using loop start step by (rule for_epochs_invariant)
  then have inv: "best_inv sf" using same by (simp add: best_inv_def)
  with a show "\<exists>x \<in> set (list_scores sf).
          best_score sf = Some (fst (snd x)) \<and> best_epoch sf = Some (fst x)"
    by (simp add: best_inv_def)
  from inv show "\<forall>x \<in> set (list_scores sf). \<forall>b. best_score sf = Some b \<longrightarrow>
      \<not> py_lt (fst (snd x)) b"
    by (simp add: best_inv_def)
  from inv show "\<forall>c \<in> set (checkpoints sf). fst c = ''model.ckpt''"
    by (simp add: best_inv_def)
qed

theorem improvement_is_strict_and_checkpointed_witness:
  "(\<exists>fl s1. epoch_body (replay_ops [5, 4] [1]) TrainSet ValidSet 3 3 1 1
              ((initial 1)\<lparr>best_score := Some (Num 5), best_epoch := Some 1,
                           list_scores := [(1, Num 5, Num 1)],
                           checkpoints := [(''model.ckpt'', 1)]\<rparr>) = (fl, s1) \<and>
     list_scores s1 = [(1, Num 5, Num 1), (2, Num 4, Num 1)] \<and>
     fl = Continue \<and> best_score s1 = Some (Num 4) \<and> best_epoch s1 = Some 2 \<and>
     checkpoints s1 = [(''model.ckpt'', 1), (''model.ckpt'', 2)] \<and> wait s1 = 0) \<and>
   fit_best_model_run (replay_ops [5, 4] [1]) 0 TrainSet ValidSet 3 3 1 =
     (Exhausted,
      \<lparr>model = 3, best_score = Some (Num 4), best_epoch = Some 2,
       list_scores = [(1, Num 5, Num 1), (2, Num 4, Num 1), (3, Num 4, Num 1)],
       wait = 1, epoch = Some 2,
       checkpoints = [(''model.ckpt'', 1), (''model.ckpt'', 2)],
       stdout = [EpochBanner 1 3, ValidScores (Num 5), EpochBanner 2 3, ValidScores (Num 4),
                 EpochBanner 3 3, ValidScores (Num 4), BestModel (Some 2) (Some (Num 4))]\<rparr>) \<and>
   \<not> py_lt (Num 5) (Num 4) \<and> \<not> py_lt (Num 4) (Num 4)"
proof -
  let ?ops = "replay_ops [5, 4] [1]"
  let ?s = "(initial (1::nat))\<lparr>best_score := Some (Num 5), best_epoch := Some 1,
                           list_scores := [(1, Num 5, Num 1)],
                           checkpoints := [(''model.ckpt'', 1)]\<rparr>"
  let ?sf = "\<lparr>model = 3::nat, best_score = Some (Num 4), best_epoch = Some 2,
       list_scores = [(1, Num 5, Num 1), (2, Num 4, Num 1), (3, Num 4, Num 1)],
       wait = 1, epoch = Some 2,
       checkpoints = [(''model.ckpt'', 1), (''model.ckpt'', 2)],
       stdout = [EpochBanner 1 3, ValidScores (Num 5), EpochBanner 2 3, ValidScores (Num 4),
                 EpochBanner 3 3, ValidScores (Num 4), BestModel (Some 2) (Some (Num 4))]\<rparr>"
  have h: "fit ?ops (model ?s) TrainSet = Inr 2 \<and> (1::int) \<noteq> 0 \<and> ((1::int) + 1) mod 1 = 0 \<and>
    evaluate ?ops 2 ValidSet = Inr (Num 4) \<and> evaluate ?ops 2 TrainSet = Inr (Num 1)"
    by (simp add: replay_ops_def table_at_def initial_def)
  have run: "fit_best_model_run ?ops 0 TrainSet ValidSet 3 3 1 = (Exhausted, ?sf)"
    by (simp add: fit_best_model_run_def py_range_def upto_rec1 initial_def
        epoch_body_def save_checkpoint_def replay_ops_def table_at_def)
  have r: "fit_best_model_run ?ops 0 TrainSet ValidSet 3 3 1 = (Exhausted, ?sf) \<and>
    list_scores ?sf \<noteq> []" using run by simp
  from improvement_is_strict_and_checkpointed[where ops = ?ops and s = ?s and tr = TrainSet
      and va = ValidSet and m = 2 and interval = 1 and e = 1 and v = "Num 4" and t = "Num 1"
      and nb = 3 and patience = 3 and ?m0.0 = 0 and how = Exhausted and sf = ?sf] h r
  have step: "\<exists>fl s1. epoch_body ?ops TrainSet ValidSet 3 3 1 1 ?s = (fl, s1) \<and>
     list_scores s1 = [(1, Num 5, Num 1), (2, Num 4, Num 1)] \<and>
     fl = Continue \<and> best_score s1 = Some (Num 4) \<and> best_epoch s1 = Some 2 \<and>
     checkpoints s1 = [(''model.ckpt'', 1), (''model.ckpt'', 2)] \<and> wait s1 = 0"
    by (simp add: initial_def)
  with run show ?thesis by simp
qed

text \<open>
  Claim C3, as the code has it. A validation check that does not improve adds one to the
  counter, and the loop stops at once, without running the epochs that remain, when the
  counter is then at least patience. If the validation score never improves after the
  first check, the run makes at most \<open>max 1 patience\<close> further checks and stops early
  exactly when it has made that many; it does so whenever no exception ends the run and
  max_epochs holds more than \<open>max 1 patience\<close> validation epochs, and otherwise the run
  ends with fewer further checks.
\<close>

theorem stalled_checks_stop_at_patience:
  "(fit ops (model s) tr = Inr m \<and> interval \<noteq> 0 \<and> (e + 1) mod interval = 0 \<and>
    evaluate ops m va = Inr v \<and> evaluate ops m tr = Inr t \<and>
    best_score s = Some b \<and> \<not> py_lt v b \<longrightarrow>
      (\<exists>s1. epoch_body ops tr va nb patience interval e s =
               (if wait s + 1 \<ge> patience then Break else Continue, s1) \<and>
            wait s1 = wait s + 1 \<and> model s1 = m \<and>
            (wait s + 1 \<ge> patience \<longrightarrow>
               for_epochs ops tr va nb patience interval (e # es) s = (StoppedEarly, s1)))) \<and>
   (fit_best_model_run ops m0 tr va nb patience interval = (how, sf) \<and>
    list_scores sf = h0 # rest \<and>
    (\<forall>x \<in> set rest. \<not> py_lt (fst (snd x)) (fst (snd h0))) \<longrightarrow>
      wait sf = int (length rest) \<and> int (length rest) \<le> max 1 patience \<and>
      (how = StoppedEarly \<longleftrightarrow> int (length rest) = max 1 patience) \<and>
      ((how = StoppedEarly \<or> how = Exhausted) \<and>
       max 1 patience < int (length [k \<leftarrow> [1..nb]. k mod interval = 0])
         \<longrightarrow> how = StoppedEarly))"
proof (intro conjI impI)
  assume a: "fit ops (model s) tr = Inr m \<and> interval \<noteq> 0 \<and> (e + 1) mod interval = 0 \<and>
    evaluate ops m va = Inr v \<and> evaluate ops m tr = Inr t \<and>
    best_score s = Some b \<and> \<not> py_lt v b"
  then show "\<exists>s1. epoch_body ops tr va nb patience interval e s =
               (if wait s + 1 \<ge> patience then Break else Continue, s1) \<and>
            wait s1 = wait s + 1 \<and> model s1 = m \<and>
            (wait s + 1 \<ge> patience \<longrightarrow>
               for_epochs ops tr va nb patience interval (e # es) s = (StoppedEarly, s1))"
    by (simp add: epoch_body_def)
next
  assume a: "fit_best_model_run ops m0 tr va nb patience interval = (how, sf) \<and>
    list_scores sf = h0 # rest \<and>
    (\<forall>x \<in> set rest. \<not> py_lt (fst (snd x)) (fst (snd h0)))"
  then have run: "fit_best_model_run ops m0 tr va nb patience interval = (how, sf)" by simp
  from fit_best_model_run_loop[OF run] obtain s0 where loop:
      "for_epochs ops tr va nb patience interval (py_range nb) (initial m0) = (how, s0)"
    and same: "list_scores sf = list_scores s0" "wait sf = wait s0" "epoch sf = epoch s0"
    by blast
  have start: "best_score (initial m0) = None" "list_scores (initial m0) = []"
    "wait (initial m0) = 0" by (simp_all add: initial_def)
  have hist: "list_scores s0 = h0 # rest" using a same by simp
  have never: "\<forall>x \<in> set rest. \<not> py_lt (fst (snd x)) (fst (snd h0))" using a by simp
  from for_epochs_never_improves[OF loop start hist never]
  have main: "wait s0 = int (length rest)" "wait s0 \<le> max 1 patience"
    "how = StoppedEarly \<longleftrightarrow> wait s0 = max 1 patience" by simp_all
  have enough: "how = StoppedEarly"
    if ended: "how = StoppedEarly \<or> how = Exhausted"
      and room: "max 1 patience < int (length [k \<leftarrow> [1..nb]. k mod interval = 0])"
  proof (rule ccontr)
    assume "how \<noteq> StoppedEarly"
    with ended have ex: "how = Exhausted" by simp
    then have nr: "\<forall>err. how \<noteq> Raised err" by simp
    from for_epochs_history[OF loop nr] ex
    have "map fst (list_scores s0) =
        [x \<leftarrow> map (\<lambda>e. e + 1) (take (length (py_range nb)) (py_range nb)). x mod interval = 0]"
      by (auto simp: initial_def)
    also have "map (\<lambda>e. e + 1) (take (length (py_range nb)) (py_range nb)) =
        [1..int (length (py_range nb))]"
      by (rule py_range_take_shift) (simp add: py_range_length)
    also have "[1..int (length (py_range nb))] = [1..nb]"
      by (cases "0 \<le> nb") (simp_all add: py_range_length)
    finally have "length (list_scores s0) = length [k \<leftarrow> [1..nb]. k mod interval = 0]"
      by (metis length_map)
    with hist have "int (length [k \<leftarrow> [1..nb]. k mod interval = 0]) = int (length rest) + 1"
      by simp
    with room main(1,2) have "wait s0 = max 1 patience" by linarith
    with main(3) ex show False by simp
  qed
  show "wait sf = int (length rest)" using main same by simp
  show "int (length rest) \<le> max 1 patience" using main by simp
  show "how = StoppedEarly \<longleftrightarrow> int (length rest) = max 1 patience" using main by simp
  show "(how = StoppedEarly \<or> how = Exhausted) \<and>
       max 1 patience < int (length [k \<leftarrow> [1..nb]. k mod interval = 0]) \<Longrightarrow> how = StoppedEarly"
    using enough by blast
qed


theorem stalled_checks_stop_at_patience_witness:
  "(\<exists>s1. epoch_body (replay_ops [5] [1]) TrainSet ValidSet 10 2 1 2
            ((initial 2)\<lparr>best_score := Some (Num 5), wait := 1\<rparr>) = (Break, s1) \<and>
         wait s1 = 2 \<and> model s1 = 3 \<and>
         for_epochs (replay_ops [5] [1]) TrainSet ValidSet 10 2 1 [2, 3]
            ((initial 2)\<lparr>best_score := Some (Num 5), wait := 1\<rparr>) = (StoppedEarly, s1)) \<and>
   fst (fit_best_model_run (replay_ops [5] [1]) 0 TrainSet ValidSet 10 2 1) = StoppedEarly \<and>
   list_scores (snd (fit_best_model_run (replay_ops [5] [1]) 0 TrainSet ValidSet 10 2 1)) =
     [(1, Num 5, Num 1), (2, Num 5, Num 1), (3, Num 5, Num 1)] \<and>
   wait (snd (fit_best_model_run (replay_ops [5] [1]) 0 TrainSet ValidSet 10 2 1)) = 2"
proof -
  let ?ops = "replay_ops [5] [1]"
  let ?s = "(initial (2::nat))\<lparr>best_score := Some (Num 5), wait := 1\<rparr>"
  let ?R = "fit_best_model_run ?ops 0 TrainSet ValidSet 10 2 1"
  have step: "fit ?ops (model ?s) TrainSet = Inr 3 \<and> (1::int) \<noteq> 0 \<and> ((2::int) + 1) mod 1 = 0 \<and>
    evaluate ?ops 3 ValidSet = Inr (Num 5) \<and> evaluate ?ops 3 TrainSet = Inr (Num 1) \<and>
    best_score ?s = Some (Num 5) \<and> \<not> py_lt (Num 5) (Num 5)"
    by (simp add: replay_ops_def table_at_def initial_def)
  have hist: "list_scores (snd ?R) = [(1, Num 5, Num 1), (2, Num 5, Num 1), (3, Num 5, Num 1)]"
    by (simp add: fit_best_model_run_def py_range_10 initial_def epoch_body_def
        save_checkpoint_def replay_ops_def table_at_def)
  have run: "?R = (fst ?R, snd ?R) \<and>
    list_scores (snd ?R) = (1, Num 5, Num 1) # [(2, Num 5, Num 1), (3, Num 5, Num 1)] \<and>
    (\<forall>x \<in> set [(2::int, Num 5, Num 1), (3, Num 5, Num 1)].
        \<not> py_lt (fst (snd x)) (fst (snd (1::int, Num 5, Num 1))))"
    using hist by simp
  from stalled_checks_stop_at_patience[where ops = ?ops and s = ?s and tr = TrainSet
      and va = ValidSet and m = 3 and interval = 1 and e = 2 and v = "Num 5" and t = "Num 1"
      and b = "Num 5" and nb = 10 and patience = 2 and es = "[3]" and ?m0.0 = 0
      and how = "fst ?R" and sf = "snd ?R" and ?h0.0 = "(1, Num 5, Num 1)"
      and rest = "[(2, Num 5, Num 1), (3, Num 5, Num 1)]"] step run hist
  show ?thesis by (simp add: initial_def)
qed

text \<open>
  Claim C3 as stated fails in two ways. With patience 0 and a validation score that stays
  at 5, the run stops early after one further check, not after none. With patience 3 and
  only 2 epochs, the run ends after one further check because the epochs are used up.
\<close>

theorem patience_additional_checks_counterexample:
  "fst (fit_best_model_run (replay_ops [5] [1]) 0 TrainSet ValidSet 10 0 1) = StoppedEarly \<and>
   list_scores (snd (fit_best_model_run (replay_ops [5] [1]) 0 TrainSet ValidSet 10 0 1)) =
     [(1, Num 5, Num 1), (2, Num 5, Num 1)] \<and>
   int (length (list_scores
     (snd (fit_best_model_run (replay_ops [5] [1]) 0 TrainSet ValidSet 10 0 1)))) - 1 \<noteq> 0 \<and>
   fst (fit_best_model_run (replay_ops [5] [1]) 0 TrainSet ValidSet 2 3 1) = Exhausted \<and>
   list_scores (snd (fit_best_model_run (replay_ops [5] [1]) 0 TrainSet ValidSet 2 3 1)) =
     [(1, Num 5, Num 1), (2, Num 5, Num 1)] \<and>
   int (length (list_scores
     (snd (fit_best_model_run (replay_ops [5] [1]) 0 TrainSet ValidSet 2 3 1)))) - 1 \<noteq> 3"
  by (simp add: fit_best_model_run_def py_range_10 py_range_def upto_rec1 initial_def
      epoch_body_def save_checkpoint_def replay_ops_def table_at_def)

text \<open>
  Claim C7. The returned history holds exactly one entry for each validation check, in
  order: its epoch numbers are the numbers from 1 to the last epoch entered that the
  interval divides, so they increase strictly, and its validation scores are the ones
  printed at the checks. This holds of every returned history, after an early stop and
  after the epochs are used up alike, and a call returns one whenever the model does not
  raise and the interval is not 0.
\<close>

theorem score_history_epochs:
  "(fit_best_model ops m0 tr va nb patience interval = Inr hist \<longrightarrow>
      (\<exists>how s. fit_best_model_run ops m0 tr va nb patience interval = (how, s) \<and>
         (how = StoppedEarly \<or> how = Exhausted) \<and> hist = list_scores s \<and>
         map fst hist = [k \<leftarrow> [1..last_epoch s]. k mod interval = 0] \<and>
         sorted_wrt (<) (map fst hist) \<and>
         map (\<lambda>x. fst (snd x)) hist = printed_valid (stdout s) \<and>
         0 \<le> last_epoch s \<and> last_epoch s \<le> max 0 nb \<and>
         (how = Exhausted \<longrightarrow> last_epoch s = max 0 nb))) \<and>
   ((\<forall>m d err. fit ops m d \<noteq> Inl err) \<and> (\<forall>m d err. evaluate ops m d \<noteq> Inl err) \<and>
    interval \<noteq> 0 \<longrightarrow>
      (\<exists>hist. fit_best_model ops m0 tr va nb patience interval = Inr hist))"
proof (intro conjI impI)
  assume "fit_best_model ops m0 tr va nb patience interval = Inr hist"
  then obtain how s where run: "fit_best_model_run ops m0 tr va nb patience interval = (how, s)"
    and ended: "how = StoppedEarly \<or> how = Exhausted" and hist: "hist = list_scores s"
    using fit_best_model_returns[of ops m0 tr va nb patience interval hist] by blast
  from fit_best_model_run_loop[OF run] obtain s0 where loop:
      "for_epochs ops tr va nb patience interval (py_range nb) (initial m0) = (how, s0)"
    and same: "list_scores s = list_scores s0" "epoch s = epoch s0"
      "printed_valid (stdout s) = printed_valid (stdout s0)"
    by blast
  have nr: "\<forall>err. how \<noteq> Raised err" using ended by auto
  from for_epochs_history[OF loop nr] obtain k where k: "k \<le> length (py_range nb)"
    and entries: "map fst (list_scores s0) =
      map fst (list_scores (initial m0)) @
      [x \<leftarrow> map (\<lambda>e. e + 1) (take k (py_range nb)). x mod interval = 0]"
    and all: "how = Exhausted \<longrightarrow> k = length (py_range nb)"
    and none: "k = 0 \<longrightarrow> epoch s0 = epoch (initial m0)"
    and some: "0 < k \<longrightarrow> epoch s0 = Some (py_range nb ! (k - 1))"
    by blast
  have k': "k \<le> nat nb" using k by (simp add: py_range_length)
  have last: "last_epoch s = int k"
  proof (cases k)
    case 0
    with none same show ?thesis by (simp add: last_epoch_def initial_def)
  next
    case (Suc j)
    with k' have "py_range nb ! (k - 1) = int j" by (simp add: py_range_nth)
    with some Suc same show ?thesis by (simp add: last_epoch_def)
  qed
  have shift: "map (\<lambda>e. e + 1) (take k (py_range nb)) = [1..int k]"
    using k' by (rule py_range_take_shift)
  have epochs: "map fst hist = [x \<leftarrow> [1..last_epoch s]. x mod interval = 0]"
    using entries shift last hist same by (simp add: initial_def)
  have sorted: "sorted_wrt (<) (map fst hist)"
    unfolding epochs by (rule sorted_wrt_filter) (rule sorted_wrt_upto)
  have printed: "map (\<lambda>x. fst (snd x)) hist = printed_valid (stdout s)"
    using for_epochs_printed[OF loop nr] hist same by (simp add: initial_def)
  have bounds: "0 \<le> last_epoch s" "last_epoch s \<le> max 0 nb" using last k' by auto
  have full: "how = Exhausted \<longrightarrow> last_epoch s = max 0 nb"
    using all last by (auto simp: py_range_length)
  show "\<exists>how s. fit_best_model_run ops m0 tr va nb patience interval = (how, s) \<and>
         (how = StoppedEarly \<or> how = Exhausted) \<and> hist = list_scores s \<and>
         map fst hist = [k \<leftarrow> [1..last_epoch s]. k mod interval = 0] \<and>
         sorted_wrt (<) (map fst hist) \<and>
         map (\<lambda>x. fst (snd x)) hist = printed_valid (stdout s) \<and>
         0 \<le> last_epoch s \<and> last_epoch s \<le> max 0 nb \<and>
         (how = Exhausted \<longrightarrow> last_epoch s = max 0 nb)"
    using run ended hist epochs sorted printed bounds full by blast
next
  assume total: "(\<forall>m d err. fit ops m d \<noteq> Inl err) \<and> (\<forall>m d err. evaluate ops m d \<noteq> Inl err) \<and>
    interval \<noteq> 0"
  obtain how s where run: "fit_best_model_run ops m0 tr va nb patience interval = (how, s)"
    by (cases "fit_best_model_run ops m0 tr va nb patience interval") auto
  from fit_best_model_run_loop[OF run] obtain s0 where loop:
      "for_epochs ops tr va nb patience interval (py_range nb) (initial m0) = (how, s0)"
    by blast
  have "how = StoppedEarly \<or> how = Exhausted"
  proof (cases how)
    case (Raised err)
    with loop for_epochs_Raised[of ops tr va nb patience interval "py_range nb" "initial m0" err s0]
      total show ?thesis by blast
  qed simp_all
  with run show "\<exists>hist. fit_best_model ops m0 tr va nb patience interval = Inr hist"
    using fit_best_model_returns[of ops m0 tr va nb patience interval "list_scores s"] by blast
qed

theorem score_history_epochs_witness:
  "fit_best_model (replay_ops [5, 4, 3, 3, 3, 6] [1]) 0 TrainSet ValidSet 10 2 2 =
     Inr [(2, Num 4, Num 1), (4, Num 3, Num 1), (6, Num 6, Num 1), (8, Num 6, Num 1)] \<and>
   (\<forall>m d err. fit (replay_ops [5, 4, 3, 3, 3, 6] [1]) m d \<noteq> Inl err) \<and>
   (\<forall>m d err. evaluate (replay_ops [5, 4, 3, 3, 3, 6] [1]) m d \<noteq> Inl err) \<and> (2::int) \<noteq> 0 \<and>
   (\<exists>how s. fit_best_model_run (replay_ops [5, 4, 3, 3, 3, 6] [1]) 0 TrainSet ValidSet 10 2 2
              = (how, s) \<and>
      (how = StoppedEarly \<or> how = Exhausted) \<and>
      map fst [(2::int, Num 4, Num 1), (4, Num 3, Num 1), (6, Num 6, Num 1), (8, Num 6, Num 1)] =
        [k \<leftarrow> [1..last_epoch s]. k mod 2 = 0] \<and>
      last_epoch s \<le> 10)"
proof -
  let ?ops = "replay_ops [5, 4, 3, 3, 3, 6] [1]"
  have ret: "fit_best_model ?ops 0 TrainSet ValidSet 10 2 2 =
     Inr [(2, Num 4, Num 1), (4, Num 3, Num 1), (6, Num 6, Num 1), (8, Num 6, Num 1)]"
    by (simp add: fit_best_model_def fit_best_model_run_def py_range_10 initial_def
        epoch_body_def save_checkpoint_def replay_ops_def table_at_def)
  have total: "(\<forall>m d err. fit ?ops m d \<noteq> Inl err) \<and> (\<forall>m d err. evaluate ?ops m d \<noteq> Inl err) \<and>
    (2::int) \<noteq> 0"
    by (simp add: replay_ops_def)
  from score_history_epochs[of ?ops 0 TrainSet ValidSet 10 2 2
      "[(2, Num 4, Num 1), (4, Num 3, Num 1), (6, Num 6, Num 1), (8, Num 6, Num 1)]"] ret total
  show ?thesis by auto
qed

text \<open>
  Claim C10. In a run that has made at least one validation check, a checkpoint was
  written to "model.ckpt" and it was the first write, and a best score exists, whatever
  the first score was. A run that has made exactly one check has its score and epoch as
  the best ones, the counter at 0 and that single checkpoint, and it did not stop early:
  an early stop takes at least two checks, for every patience.
\<close>

theorem first_check_always_improves:
  assumes "fit_best_model_run ops m0 tr va nb patience interval = (how, s)"
    and "list_scores s \<noteq> []"
  shows "(\<exists>m rest. checkpoints s = (''model.ckpt'', m) # rest) \<and> best_score s \<noteq> None \<and>
         (how = StoppedEarly \<longrightarrow> 2 \<le> length (list_scores s)) \<and>
         (\<forall>h. list_scores s = [h] \<longrightarrow>
            wait s = 0 \<and> best_score s = Some (fst (snd h)) \<and> best_epoch s = Some (fst h) \<and>
            (\<exists>m. checkpoints s = [(''model.ckpt'', m)]) \<and> how \<noteq> StoppedEarly)"
proof -
  from fit_best_model_run_loop[OF assms(1)] obtain s0 where loop:
      "for_epochs ops tr va nb patience interval (py_range nb) (initial m0) = (how, s0)"
    and same: "list_scores s = list_scores s0" "best_score s = best_score s0"
      "best_epoch s = best_epoch s0" "wait s = wait s0" "checkpoints s = checkpoints s0"
    by blast
  have start: "first_check_inv (initial m0)" by (simp add: first_check_inv_def initial_def)
  have step: "\<And>e s fl s1. first_check_inv s \<Longrightarrow>
      epoch_body ops tr va nb patience interval e s = (fl, s1) \<Longrightarrow> first_check_inv s1"
    by (rule first_check_invariant)
  have "first_check_inv s0"
    using loop start step by (rule for_epochs_invariant)
  then have inv: "first_check_inv s"
    using same by (simp add: first_check_inv_def split: list.splits)
  have early: "2 \<le> length (list_scores s)" if "how = StoppedEarly"
  proof -
    from that loop have "for_epochs ops tr va nb patience interval (py_range nb) (initial m0)
        = (StoppedEarly, s0)" by simp
    from this start step have "\<exists>e sb. first_check_inv sb \<and>
        epoch_body ops tr va nb patience interval e sb = (Break, s0)"
      by (rule for_epochs_StoppedEarly)
    then obtain e sb where before: "first_check_inv sb"
      and broke: "epoch_body ops tr va nb patience interval e sb = (Break, s0)" by blast
    from broke before have "2 \<le> length (list_scores s0)"
      by (rule break_after_second_check)
    with same show ?thesis by simp
  qed
  from inv assms(2) early show ?thesis
    by (cases "list_scores s" rule: list.exhaust; cases "tl (list_scores s)")
       (auto simp: first_check_inv_def)
qed

theorem first_check_always_improves_witness:
  "fit_best_model_run (replay_ops [5] [1]) 0 TrainSet ValidSet 1 1 1 =
     (Exhausted,
      \<lparr>model = 1, best_score = Some (Num 5), best_epoch = Some 1,
       list_scores = [(1, Num 5, Num 1)], wait = 0, epoch = Some 0,
       checkpoints = [(''model.ckpt'', 1)],
       stdout = [EpochBanner 1 1, ValidScores (Num 5), BestModel (Some 1) (Some (Num 5))]\<rparr>) \<and>
   (\<exists>m rest. [(''model.ckpt'', 1::nat)] = (''model.ckpt'', m) # rest)"
proof -
  let ?s = "\<lparr>model = 1::nat, best_score = Some (Num 5), best_epoch = Some 1,
       list_scores = [(1, Num 5, Num 1)], wait = 0, epoch = Some 0,
       checkpoints = [(''model.ckpt'', 1)],
       stdout = [EpochBanner 1 1, ValidScores (Num 5), BestModel (Some 1) (Some (Num 5))]\<rparr>"
  have run: "fit_best_model_run (replay_ops [5] [1]) 0 TrainSet ValidSet 1 1 1 = (Exhausted, ?s)"
    by (simp add: fit_best_model_run_def py_range_def upto_rec1 initial_def
        epoch_body_def save_checkpoint_def replay_ops_def table_at_def)
  have some: "list_scores ?s \<noteq> []" by simp
  from first_check_always_improves[OF run some] run show ?thesis by simp
qed


section \<open>Claims about load_data\<close>

lemma apply_each_marks:
  "apply_each f xs = Inr bs \<Longrightarrow>
     map fst (filter snd (zip xs bs)) = filter (\<lambda>x. f x = Inr True) xs"
proof (induction xs arbitrary: bs)
  case Nil
  then show ?case by simp
next
  case (Cons x xs)
  then show ?case by (auto split: sum.splits)
qed

lemma cell_lt_lighter: "cell_lt (vals r ''MolWt'') t = Inr True \<longleftrightarrow> lighter_than t r"
  by (cases "vals r ''MolWt''") (simp_all add: lighter_than_def weight_of_def)

lemma lighter_not_at_least: "lighter_than t r \<Longrightarrow> \<not> at_least t r"
proof -
  assume l: "lighter_than t r"
  then obtain w where w: "weight_of r = Some w" "py_lt w (Num t)"
    by (auto simp: lighter_than_def split: option.splits)
  then have "\<not> py_ge w (Num t)" by (cases w) simp_all
  with w show ?thesis by (simp add: at_least_def)
qed

lemma rows_below_MolWt:
  assumes "rows_below ''MolWt'' t df = Inr out"
  shows "rows out = filter (lighter_than t) (rows df) \<and> columns out = columns df"
proof -
  from assms obtain bs where
    bs: "apply_each (\<lambda>r. cell_lt (vals r ''MolWt'') t) (rows df) = Inr bs"
    and out: "out = df\<lparr>rows := map fst (filter snd (zip (rows df) bs))\<rparr>"
    by (auto simp: rows_below_def split: if_splits sum.splits)
  from apply_each_marks[OF bs] out show ?thesis by (simp add: cell_lt_lighter)
qed

text \<open>
  Claim C5. Whatever the threshold, the table load_data returns consists of exactly the
  rows of the loaded table whose weight is strictly below it, in their order, so it holds
  no row whose weight is at or above the threshold; and for the five molecules of weights
  100, 250, 300, 450 and 500 with threshold 300 it returns the two rows of weights 100
  and 250.
\<close>

theorem load_data_weight_filter:
  "(load_data read_csv MolFromSmiles DescriptorsMolWt datafile t first_index = Inr out \<longrightarrow>
      (\<exists>df. loaded_table read_csv MolFromSmiles DescriptorsMolWt datafile first_index = Inr df \<and>
            columns out = columns df \<and>
            rows out = filter (lighter_than t) (rows df) \<and>
            (\<forall>r \<in> set (rows out). lighter_than t r \<and> \<not> at_least t r))) \<and>
   load_data (\<lambda>f. Inr five_molecules) MolFromSmiles DescriptorsMolWt datafile 300 False =
     Inr (five_molecules\<lparr>rows := [molecule_row 0 ''C7H16'' 100, molecule_row 1 ''C18H34'' 250]\<rparr>)"
proof (intro conjI impI)
  assume ret: "load_data read_csv MolFromSmiles DescriptorsMolWt datafile t first_index = Inr out"
  then obtain df where
    df: "loaded_table read_csv MolFromSmiles DescriptorsMolWt datafile first_index = Inr df"
    and below: "rows_below ''MolWt'' t df = Inr out"
    by (auto simp: load_data_def split: sum.splits)
  from rows_below_MolWt[OF below]
  have kept: "rows out = filter (lighter_than t) (rows df)" "columns out = columns df"
    by simp_all
  then have "\<forall>r \<in> set (rows out). lighter_than t r \<and> \<not> at_least t r"
    by (auto dest: lighter_not_at_least)
  with df kept
  show "\<exists>df. loaded_table read_csv MolFromSmiles DescriptorsMolWt datafile first_index = Inr df \<and>
            columns out = columns df \<and>
            rows out = filter (lighter_than t) (rows df) \<and>
            (\<forall>r \<in> set (rows out). lighter_than t r \<and> \<not> at_least t r)"
    by blast
next
  show "load_data (\<lambda>f. Inr five_molecules) MolFromSmiles DescriptorsMolWt datafile 300 False =
     Inr (five_molecules\<lparr>rows := [molecule_row 0 ''C7H16'' 100, molecule_row 1 ''C18H34'' 250]\<rparr>)"
    by (simp add: load_data_def loaded_table_def rows_below_def five_molecules_def
        molecule_row_def)
qed

theorem load_data_weight_filter_witness:
  "load_data (\<lambda>f. Inr five_molecules) (\<lambda>c. Inr c) (\<lambda>c. Inr c) ''molecules.csv'' 300 False =
     Inr (five_molecules\<lparr>rows := [molecule_row 0 ''C7H16'' 100, molecule_row 1 ''C18H34'' 250]\<rparr>) \<and>
   (\<exists>df. loaded_table (\<lambda>f. Inr five_molecules) (\<lambda>c. Inr c) (\<lambda>c. Inr c) ''molecules.csv'' False
           = Inr df \<and>
         [molecule_row 0 ''C7H16'' 100, molecule_row 1 ''C18H34'' 250] =
           filter (lighter_than 300) (rows df)) \<and>
   \<not> at_least 300 (molecule_row 0 ''C7H16'' 100) \<and>
   \<not> at_least 300 (molecule_row 1 ''C18H34'' 250)"
  using load_data_weight_filter[of "\<lambda>f. Inr five_molecules" "\<lambda>c. Inr c" "\<lambda>c. Inr c"
      "''molecules.csv''" 300 False
      "five_molecules\<lparr>rows := [molecule_row 0 ''C7H16'' 100, molecule_row 1 ''C18H34'' 250]\<rparr>"]
  by auto


section \<open>Claims about receptor_data\<close>

lemma marked_labels:
  "map (\<lambda>(r, b). idx r) (filter snd (zip rs (map f rs))) = map idx (filter f rs)"
  by (induction rs) simp_all

lemma receptor_frame_rows:
  assumes "receptor_frame df receptor_name = Inr kept"
  shows "rows kept =
           filter (\<lambda>r. idx r \<notin> idx ` {z \<in> set (rows df). is_zero (vals z receptor_name)})
             (rows df)"
    and "columns kept = [receptor_name, ''molecules'', ''SMILES'']"
  using assms unfolding receptor_frame_def Let_def marked_labels
  by (auto split: list.splits)

lemma receptor_frame_no_zero:
  assumes "receptor_frame df receptor_name = Inr kept"
  shows "set (rows kept) \<subseteq> set (rows df)"
    and "\<forall>r \<in> set (rows kept). \<not> is_zero (vals r receptor_name)"
    and "\<forall>r \<in> set (rows df). is_zero (vals r receptor_name) \<longrightarrow> r \<notin> set (rows kept)"
  using receptor_frame_rows(1)[OF assms] by auto

lemma receptor_frame_unique_labels:
  assumes "receptor_frame df receptor_name = Inr kept" and "distinct (map idx (rows df))"
  shows "rows kept = filter (\<lambda>r. \<not> is_zero (vals r receptor_name)) (rows df)"
proof -
  have inj: "inj_on idx (set (rows df))" using assms(2) by (simp add: distinct_map)
  have "\<And>r. r \<in> set (rows df) \<Longrightarrow>
      (idx r \<notin> idx ` {z \<in> set (rows df). is_zero (vals z receptor_name)}) =
      (\<not> is_zero (vals r receptor_name))"
    using inj by (auto dest: inj_onD)
  then show ?thesis
    unfolding receptor_frame_rows(1)[OF assms(1)] by (intro filter_cong) simp_all
qed

lemma take_rows_Inr:
  "take_rows xs inds = Inr ys \<Longrightarrow> ys = map (\<lambda>i. xs ! i) inds \<and> (\<forall>i \<in> set inds. i < length xs)"
  by (auto simp: take_rows_def split: if_splits)

lemma select_Inr:
  assumes "select d inds = Inr part"
  shows "ds_X part = map (\<lambda>i. ds_X d ! i) inds" and "ds_y part = map (\<lambda>i. ds_y d ! i) inds"
    and "ds_ids part = map (\<lambda>i. ds_ids d ! i) inds" and "\<forall>i \<in> set inds. i < length (ds_y d)"
  using assms by (auto simp: select_def split: sum.splits dest!: take_rows_Inr)

lemma mset_positions:
  assumes "mset p = mset [0..<length xs]"
  shows "mset (map (\<lambda>i. xs ! i) p) = mset xs"
proof -
  have "mset (map (\<lambda>i. xs ! i) p) = image_mset (\<lambda>i. xs ! i) (mset p)" by simp
  also have "\<dots> = mset (map (\<lambda>i. xs ! i) [0..<length xs])" using assms by simp
  also have "\<dots> = mset xs" by (simp add: map_nth)
  finally show ?thesis .
qed

lemma positions_distinct:
  assumes "mset p = mset [0..<n]"
  shows "distinct p" and "set p = {0..<n}"
proof -
  show "distinct p" using assms by (metis distinct_upt mset_eq_imp_distinct_iff)
  show "set p = {0..<n}" using assms by (metis mset_eq_setD set_upt)
qed

lemma normalized_dataset_Inr:
  assumes "normalized_dataset tk kept receptor_name = Inr (dataset, transformer)"
  shows "ds_y dataset = map (\<lambda>r. transform_y tk transformer (vals r receptor_name)) (rows kept)"
    and "ds_ids dataset = map (\<lambda>r. vals r ''SMILES'') (rows kept)"
    and "featurize tk (map (\<lambda>r. vals r ''molecules'') (rows kept)) = Inr (ds_X dataset)"
  using assms by (auto simp: normalized_dataset_def Let_def split: sum.splits)

lemma exchange_mset:
  assumes "i < length xs" and "j < length xs"
  shows "mset (exchange xs i j) = mset xs"
  unfolding exchange_def using mset_swap[OF assms(2) assms(1)] .

lemma exchange_length: "length (exchange xs i j) = length xs"
  by (simp add: exchange_def)

lemma shuffle_from_mset:
  "k < length xs \<Longrightarrow> mset (shuffle_from drw g k xs) = mset xs"
proof (induction k arbitrary: g xs)
  case 0
  show ?case by simp
next
  case (Suc k)
  obtain j g' where d: "drw g (Suc k) = (j, g')" by (cases "drw g (Suc k)")
  have jlt: "j mod Suc (Suc k) < length xs"
  proof -
    have "j mod Suc (Suc k) < Suc (Suc k)" by (rule mod_less_divisor) simp
    with Suc.prems show ?thesis by linarith
  qed
  have "mset (shuffle_from drw g' k (exchange xs (Suc k) (j mod Suc (Suc k)))) =
      mset (exchange xs (Suc k) (j mod Suc (Suc k)))"
    using Suc.prems by (intro Suc.IH) (simp add: exchange_length)
  also have "\<dots> = mset xs" using Suc.prems jlt by (rule exchange_mset)
  finally show ?case using d by simp
qed

lemma shuffled_positions_mset: "mset (shuffled_positions drw g n) = mset [0..<n]"
proof (cases n)
  case 0
  then show ?thesis by (simp add: shuffled_positions_def)
next
  case (Suc m)
  have "mset (shuffle_from drw g m [0..<Suc m]) = mset [0..<Suc m]"
    by (rule shuffle_from_mset) simp
  with Suc show ?thesis by (simp add: shuffled_positions_def)
qed

lemma cut_in_three:
  "c1 \<le> c2 \<Longrightarrow> take c1 p @ take (c2 - c1) (drop c1 p) @ drop c2 p = p"
proof -
  assume le: "c1 \<le> c2"
  have "take (c2 - c1) (drop c1 p) @ drop c2 p =
        take (c2 - c1) (drop c1 p) @ drop (c2 - c1) (drop c1 p)"
    using le by simp
  also have "\<dots> = drop c1 p" by (rule append_take_drop_id)
  finally show ?thesis by simp
qed

lemma train_valid_test_split_seeded:
  assumes "train_valid_test_split tk g dataset seed = Inr parts"
  shows "\<exists>seeded. reseed tk seed = Inr seeded"
  using assms by (auto simp: train_valid_test_split_def split: sum.splits)

lemma train_valid_test_split_Inr:
  assumes "train_valid_test_split tk g dataset seed =
             Inr (train_dataset, valid_dataset, test_dataset)"
    and "reseed tk seed = Inr seeded"
  defines "n \<equiv> length (ds_y dataset)"
  defines "p \<equiv> shuffled_positions (draw tk) seeded n"
  shows "n \<noteq> 0"
    and "select dataset (take ((8 * n) div 10) p) = Inr train_dataset"
    and "select dataset (take ((9 * n) div 10 - (8 * n) div 10) (drop ((8 * n) div 10) p)) =
           Inr valid_dataset"
    and "select dataset (drop ((9 * n) div 10) p) = Inr test_dataset"
  using assms(1,2) unfolding n_def p_def train_valid_test_split_def Let_def
  by (auto split: if_splits sum.splits)

lemma shuffled_positions_length: "length (shuffled_positions drw g n) = n"
  using mset_eq_length[OF shuffled_positions_mset[of drw g n]] by simp

lemma returned_partitions:
  assumes res: "receptor_data tk g df receptor_name seed =
             Inr (train_dataset, valid_dataset, test_dataset, transformer)"
    and frame: "receptor_frame df receptor_name = Inr kept"
    and seeded: "reseed tk seed = Inr seeded"
  defines "n \<equiv> length (rows kept)"
  defines "p \<equiv> shuffled_positions (draw tk) seeded n"
  defines "a \<equiv> take ((8 * n) div 10) p"
  defines "b \<equiv> take ((9 * n) div 10 - (8 * n) div 10) (drop ((8 * n) div 10) p)"
  defines "c \<equiv> drop ((9 * n) div 10) p"
  defines "label \<equiv> \<lambda>i. transform_y tk transformer (vals (rows kept ! i) receptor_name)"
  defines "ident \<equiv> \<lambda>i. vals (rows kept ! i) ''SMILES''"
  shows "rows kept \<noteq> []"
    and "fit_transformer tk (map (\<lambda>r. vals r receptor_name) (rows kept)) = Inr transformer"
    and "\<exists>feats. featurize tk (map (\<lambda>r. vals r ''molecules'') (rows kept)) = Inr feats \<and>
           n \<le> length feats \<and>
           ds_X train_dataset = map (\<lambda>i. feats ! i) a \<and>
           ds_X valid_dataset = map (\<lambda>i. feats ! i) b \<and>
           ds_X test_dataset = map (\<lambda>i. feats ! i) c"
    and "ds_y train_dataset = map label a \<and> ds_y valid_dataset = map label b \<and>
         ds_y test_dataset = map label c"
    and "ds_ids train_dataset = map ident a \<and> ds_ids valid_dataset = map ident b \<and>
         ds_ids test_dataset = map ident c"
    and "a @ b @ c = p"
    and "distinct p \<and> set p = {0..<n}"
proof -
  from res frame obtain dataset where
    norm: "normalized_dataset tk kept receptor_name = Inr (dataset, transformer)"
    and split: "train_valid_test_split tk g dataset seed =
                  Inr (train_dataset, valid_dataset, test_dataset)"
    by (auto simp: receptor_data_def split: sum.splits prod.splits)
  have y: "ds_y dataset =
      map (\<lambda>r. transform_y tk transformer (vals r receptor_name)) (rows kept)"
    and ids: "ds_ids dataset = map (\<lambda>r. vals r ''SMILES'') (rows kept)"
    and feats: "featurize tk (map (\<lambda>r. vals r ''molecules'') (rows kept)) = Inr (ds_X dataset)"
    using normalized_dataset_Inr[OF norm] by simp_all
  have len: "length (ds_y dataset) = n" using y by (simp add: n_def)
  note parts = train_valid_test_split_Inr[OF split seeded, unfolded len, folded p_def,
      folded a_def b_def c_def]
  have tr: "select dataset a = Inr train_dataset"
    and va: "select dataset b = Inr valid_dataset"
    and te: "select dataset c = Inr test_dataset"
    using parts by simp_all
  show abc: "a @ b @ c = p"
    unfolding a_def b_def c_def by (rule cut_in_three) simp
  show perm: "distinct p \<and> set p = {0..<n}"
    using positions_distinct[OF shuffled_positions_mset[of "draw tk" seeded n]]
    by (simp add: p_def)
  have inr: "\<forall>i \<in> set (a @ b @ c). i < n"
    using abc perm by simp
  show "rows kept \<noteq> []" using parts(1) by (auto simp: n_def)
  show "fit_transformer tk (map (\<lambda>r. vals r receptor_name) (rows kept)) = Inr transformer"
    using norm by (auto simp: normalized_dataset_def Let_def split: sum.splits)
  have inX: "\<forall>i \<in> set (a @ b @ c). i < length (ds_X dataset)"
    using tr va te by (auto simp: select_def split: sum.splits dest!: take_rows_Inr)
  have "n \<le> length (ds_X dataset)"
  proof (cases n)
    case 0
    then show ?thesis by simp
  next
    case (Suc m)
    then have "m \<in> set (a @ b @ c)" using abc perm by simp
    with inX have "m < length (ds_X dataset)" by blast
    with Suc show ?thesis by simp
  qed
  with feats select_Inr(1)[OF tr] select_Inr(1)[OF va] select_Inr(1)[OF te]
  show "\<exists>feats. featurize tk (map (\<lambda>r. vals r ''molecules'') (rows kept)) = Inr feats \<and>
           n \<le> length feats \<and>
           ds_X train_dataset = map (\<lambda>i. feats ! i) a \<and>
           ds_X valid_dataset = map (\<lambda>i. feats ! i) b \<and>
           ds_X test_dataset = map (\<lambda>i. feats ! i) c"
    by blast
  show "ds_y train_dataset = map label a \<and> ds_y valid_dataset = map label b \<and>
         ds_y test_dataset = map label c"
    using select_Inr(2)[OF tr] select_Inr(2)[OF va] select_Inr(2)[OF te] inr y
    by (simp add: label_def n_def)
  show "ds_ids train_dataset = map ident a \<and> ds_ids valid_dataset = map ident b \<and>
         ds_ids test_dataset = map ident c"
    using select_Inr(3)[OF tr] select_Inr(3)[OF va] select_Inr(3)[OF te] inr ids
    by (simp add: ident_def n_def)
qed

lemma mset_at_positions:
  assumes perm: "mset p = mset [0..<n]" and le: "n \<le> length xs"
  shows "mset (map (\<lambda>i. f (xs ! i)) p) = mset (map f (take n xs))"
proof -
  let ?ys = "map f (take n xs)"
  have len: "length ?ys = n" using le by simp
  have "set p = {0..<n}" using perm by (rule positions_distinct(2))
  then have eq: "map (\<lambda>i. f (xs ! i)) p = map (\<lambda>i. ?ys ! i) p"
    using le by (intro map_cong) simp_all
  have "mset p = mset [0..<length ?ys]" using perm by (simp only: len)
  then have "mset (map (\<lambda>i. ?ys ! i) p) = mset ?ys" by (rule mset_positions)
  then show ?thesis by (simp only: eq)
qed

lemma receptor_data_Inr:
  assumes "receptor_data tk g df receptor_name seed = Inr result"
  obtains kept seeded where "receptor_frame df receptor_name = Inr kept"
    and "reseed tk seed = Inr seeded"
proof -
  from assms obtain kept dataset parts where
    frame: "receptor_frame df receptor_name = Inr kept"
    and split: "train_valid_test_split tk g dataset seed = Inr parts"
    by (auto simp: receptor_data_def split: sum.splits prod.splits)
  from train_valid_test_split_seeded[OF split] frame that show thesis by blast
qed


text \<open>
  Claim C4, as the code has it. For every receptor column (any column but the molecule
  and identifier columns), the rows whose receptor value is
  exactly 0.0 are dropped before featurization, normalization and splitting: no kept row
  has receptor value 0.0, the kept rows are exactly the rows with another value when the
  index labels are distinct, and there is at least one of them when the function returns;
  the features are those of the molecules of the kept rows, the returned transformer is
  the one fitted on the receptor values of the kept rows, and the positions that are
  split are those of the kept rows, shuffled from the generator as the seed leaves it and
  cut at 80% and 90%. The
  label stored for a row is what the transformer makes of its receptor value. The three
  lists of positions have no position in common and hold every position of a kept row, so
  the partitions are disjoint and together hold exactly the kept rows.
\<close>

theorem receptor_data_drops_zero_rows:
  assumes "receptor_data tk g df receptor_name seed =
             Inr (train_dataset, valid_dataset, test_dataset, transformer)"
    and "receptor_name \<notin> {''molecules'', ''SMILES''}"
  shows "\<exists>kept feats seeded a b c.
     receptor_frame df receptor_name = Inr kept \<and>
     set (rows kept) \<subseteq> set (rows df) \<and>
     (\<forall>r \<in> set (rows kept). \<not> is_zero (vals r receptor_name)) \<and>
     (\<forall>r \<in> set (rows df). is_zero (vals r receptor_name) \<longrightarrow> r \<notin> set (rows kept)) \<and>
     (distinct (map idx (rows df)) \<longrightarrow>
        rows kept = filter (\<lambda>r. \<not> is_zero (vals r receptor_name)) (rows df)) \<and>
     rows kept \<noteq> [] \<and>
     featurize tk (map (\<lambda>r. vals r ''molecules'') (rows kept)) = Inr feats \<and>
     length (rows kept) \<le> length feats \<and>
     fit_transformer tk (map (\<lambda>r. vals r receptor_name) (rows kept)) = Inr transformer \<and>
     reseed tk seed = Inr seeded \<and>
     a @ b @ c = shuffled_positions (draw tk) seeded (length (rows kept)) \<and>
     length a = (8 * length (rows kept)) div 10 \<and>
     length (a @ b) = (9 * length (rows kept)) div 10 \<and>
     distinct (a @ b @ c) \<and> set (a @ b @ c) = {0..<length (rows kept)} \<and>
     ds_X train_dataset = map (\<lambda>i. feats ! i) a \<and>
     ds_X valid_dataset = map (\<lambda>i. feats ! i) b \<and>
     ds_X test_dataset = map (\<lambda>i. feats ! i) c \<and>
     ds_y train_dataset =
       map (\<lambda>i. transform_y tk transformer (vals (rows kept ! i) receptor_name)) a \<and>
     ds_y valid_dataset =
       map (\<lambda>i. transform_y tk transformer (vals (rows kept ! i) receptor_name)) b \<and>
     ds_y test_dataset =
       map (\<lambda>i. transform_y tk transformer (vals (rows kept ! i) receptor_name)) c \<and>
     ds_ids train_dataset = map (\<lambda>i. vals (rows kept ! i) ''SMILES'') a \<and>
     ds_ids valid_dataset = map (\<lambda>i. vals (rows kept ! i) ''SMILES'') b \<and>
     ds_ids test_dataset = map (\<lambda>i. vals (rows kept ! i) ''SMILES'') c \<and>
     mset (ds_X train_dataset @ ds_X valid_dataset @ ds_X test_dataset) =
       mset (take (length (rows kept)) feats) \<and>
     mset (ds_y train_dataset @ ds_y valid_dataset @ ds_y test_dataset) =
       mset (map (\<lambda>r. transform_y tk transformer (vals r receptor_name)) (rows kept)) \<and>
     mset (ds_ids train_dataset @ ds_ids valid_dataset @ ds_ids test_dataset) =
       mset (map (\<lambda>r. vals r ''SMILES'') (rows kept))"
proof -
  from assms(1) obtain kept seeded where
    frame: "receptor_frame df receptor_name = Inr kept"
    and seeded: "reseed tk seed = Inr seeded"
    by (rule receptor_data_Inr)
  let ?n = "length (rows kept)"
  define p where "p = shuffled_positions (draw tk) seeded ?n"
  define a where "a = take ((8 * ?n) div 10) p"
  define b where "b = take ((9 * ?n) div 10 - (8 * ?n) div 10) (drop ((8 * ?n) div 10) p)"
  define c where "c = drop ((9 * ?n) div 10) p"
  note parts = returned_partitions[OF assms(1) frame seeded, folded p_def,
      folded a_def b_def c_def]
  from parts(3) obtain feats where
    feats: "featurize tk (map (\<lambda>r. vals r ''molecules'') (rows kept)) = Inr feats"
    and enough: "?n \<le> length feats"
    and Xtr: "ds_X train_dataset = map (\<lambda>i. feats ! i) a"
    and Xva: "ds_X valid_dataset = map (\<lambda>i. feats ! i) b"
    and Xte: "ds_X test_dataset = map (\<lambda>i. feats ! i) c"
    by blast
  have sub: "set (rows kept) \<subseteq> set (rows df)"
    and nonzero: "\<forall>r \<in> set (rows kept). \<not> is_zero (vals r receptor_name)"
    and dropped: "\<forall>r \<in> set (rows df). is_zero (vals r receptor_name) \<longrightarrow> r \<notin> set (rows kept)"
    by (rule receptor_frame_no_zero[OF frame])+
  have uniq: "distinct (map idx (rows df)) \<longrightarrow>
        rows kept = filter (\<lambda>r. \<not> is_zero (vals r receptor_name)) (rows df)"
    using receptor_frame_unique_labels[OF frame] by simp
  have some: "rows kept \<noteq> []" by (rule parts(1))
  have fitted: "fit_transformer tk (map (\<lambda>r. vals r receptor_name) (rows kept)) =
      Inr transformer"
    by (rule parts(2))
  have abc: "a @ b @ c = p" by (rule parts(6))
  have positions: "a @ b @ c = shuffled_positions (draw tk) seeded ?n"
    using abc by (simp only: p_def)
  have perm: "mset (a @ b @ c) = mset [0..<?n]"
    unfolding abc p_def by (rule shuffled_positions_mset)
  have lenp: "length p = ?n" unfolding p_def by (rule shuffled_positions_length)
  have la: "length a = (8 * ?n) div 10" unfolding a_def using lenp by simp
  have lab: "length (a @ b) = (9 * ?n) div 10" unfolding a_def b_def using lenp by simp
  have dist: "distinct (a @ b @ c)" and cover: "set (a @ b @ c) = {0..<?n}"
    using parts(7) unfolding abc by simp_all
  have ytr: "ds_y train_dataset =
       map (\<lambda>i. transform_y tk transformer (vals (rows kept ! i) receptor_name)) a"
    and yva: "ds_y valid_dataset =
       map (\<lambda>i. transform_y tk transformer (vals (rows kept ! i) receptor_name)) b"
    and yte: "ds_y test_dataset =
       map (\<lambda>i. transform_y tk transformer (vals (rows kept ! i) receptor_name)) c"
    using parts(4) by simp_all
  have itr: "ds_ids train_dataset = map (\<lambda>i. vals (rows kept ! i) ''SMILES'') a"
    and iva: "ds_ids valid_dataset = map (\<lambda>i. vals (rows kept ! i) ''SMILES'') b"
    and ite: "ds_ids test_dataset = map (\<lambda>i. vals (rows kept ! i) ''SMILES'') c"
    using parts(5) by simp_all
  have eqX: "ds_X train_dataset @ ds_X valid_dataset @ ds_X test_dataset =
      map (\<lambda>i. id (feats ! i)) (a @ b @ c)"
    using Xtr Xva Xte by simp
  have mX: "mset (ds_X train_dataset @ ds_X valid_dataset @ ds_X test_dataset) =
      mset (take ?n feats)"
    unfolding eqX
    using mset_at_positions[where f = id and xs = feats, OF perm enough] by simp
  have eqy: "ds_y train_dataset @ ds_y valid_dataset @ ds_y test_dataset =
      map (\<lambda>i. transform_y tk transformer (vals (rows kept ! i) receptor_name)) (a @ b @ c)"
    using ytr yva yte by simp
  have my: "mset (ds_y train_dataset @ ds_y valid_dataset @ ds_y test_dataset) =
      mset (map (\<lambda>r. transform_y tk transformer (vals r receptor_name)) (rows kept))"
    unfolding eqy
    using mset_at_positions[where xs = "rows kept"
          and f = "\<lambda>r. transform_y tk transformer (vals r receptor_name)", OF perm order_refl]
    by simp
  have eqi: "ds_ids train_dataset @ ds_ids valid_dataset @ ds_ids test_dataset =
      map (\<lambda>i. vals (rows kept ! i) ''SMILES'') (a @ b @ c)"
    using itr iva ite by simp
  have mi: "mset (ds_ids train_dataset @ ds_ids valid_dataset @ ds_ids test_dataset) =
      mset (map (\<lambda>r. vals r ''SMILES'') (rows kept))"
    unfolding eqi
    using mset_at_positions[where xs = "rows kept" and f = "\<lambda>r. vals r ''SMILES''",
          OF perm order_refl]
    by simp
  show ?thesis
    apply (rule exI[of _ kept], rule exI[of _ feats], rule exI[of _ seeded])
    apply (rule exI[of _ a], rule exI[of _ b], rule exI[of _ c])
    apply (intro conjI)
    by (fact frame sub nonzero dropped uniq some feats enough fitted seeded positions la lab dist
        cover Xtr Xva Xte ytr yva yte itr iva ite mX my mi)+
qed


lemma docking_frame:
  "receptor_frame docking_table ''P-gp'' =
     Inr \<lparr>columns = [''P-gp'', ''molecules'', ''SMILES''],
          rows = [docking_row 0 ''CCO'' (-7), docking_row 2 ''CCC'' (-8),
                  docking_row 3 ''CCS'' (-9)]\<rparr>"
  unfolding receptor_frame_def Let_def marked_labels
  by (simp add: docking_table_def docking_row_def)

lemma docking_dataset:
  "normalized_dataset library_toolkit
     \<lparr>columns = [''P-gp'', ''molecules'', ''SMILES''],
      rows = [docking_row 0 ''CCO'' (-7), docking_row 2 ''CCC'' (-8),
              docking_row 3 ''CCS'' (-9)]\<rparr> ''P-gp'' =
     Inr (\<lparr>ds_X = [''CCO'', ''CCC'', ''CCS''],
           ds_y = [Flt (Num (1 / sqrt (2 / 3))), Flt (Num 0), Flt (Num (- (1 / sqrt (2 / 3))))],
           ds_ids = [Str ''CCO'', Str ''CCC'', Str ''CCS'']\<rparr>,
          (- 8, sqrt (2 / 3)))"
  by (simp add: normalized_dataset_def library_toolkit_def docking_row_def
      fit_standard_score_def mean_def)

lemma docking_seed: "reseed library_toolkit 1 = Inr (Suc 0)"
  by (simp add: library_toolkit_def counter_seed_def)

lemma docking_shuffle:
  "shuffled_positions (draw library_toolkit) (Suc 0) (Suc (Suc (Suc 0))) = [2, 0, 1]"
  by (simp add: library_toolkit_def shuffled_positions_def counter_draw_def exchange_def
      upt_rec)

lemma docking_run:
  "receptor_data library_toolkit g docking_table ''P-gp'' 1 =
     Inr (\<lparr>ds_X = [''CCS'', ''CCO''],
           ds_y = [Flt (Num (- (1 / sqrt (2 / 3)))), Flt (Num (1 / sqrt (2 / 3)))],
           ds_ids = [Str ''CCS'', Str ''CCO'']\<rparr>,
          \<lparr>ds_X = [], ds_y = [], ds_ids = []\<rparr>,
          \<lparr>ds_X = [''CCC''], ds_y = [Flt (Num 0)], ds_ids = [Str ''CCC'']\<rparr>,
          (- 8, sqrt (2 / 3)))"
  by (simp add: receptor_data_def docking_frame docking_dataset train_valid_test_split_def
      docking_seed docking_shuffle select_def take_rows_def)

theorem receptor_data_drops_zero_rows_witness:
  "''P-gp'' \<notin> {''molecules'', ''SMILES''} \<and>
   receptor_data library_toolkit 0 docking_table ''P-gp'' 1 =
     Inr (\<lparr>ds_X = [''CCS'', ''CCO''],
           ds_y = [Flt (Num (- (1 / sqrt (2 / 3)))), Flt (Num (1 / sqrt (2 / 3)))],
           ds_ids = [Str ''CCS'', Str ''CCO'']\<rparr>,
          \<lparr>ds_X = [], ds_y = [], ds_ids = []\<rparr>,
          \<lparr>ds_X = [''CCC''], ds_y = [Flt (Num 0)], ds_ids = [Str ''CCC'']\<rparr>,
          (- 8, sqrt (2 / 3))) \<and>
   (\<exists>kept feats a b c.
      receptor_frame docking_table ''P-gp'' = Inr kept \<and>
      rows kept = [docking_row 0 ''CCO'' (-7), docking_row 2 ''CCC'' (-8),
                   docking_row 3 ''CCS'' (-9)] \<and>
      reseed library_toolkit 1 = Inr (Suc 0) \<and>
      featurize library_toolkit (map (\<lambda>r. vals r ''molecules'') (rows kept)) = Inr feats \<and>
      fit_transformer library_toolkit (map (\<lambda>r. vals r ''P-gp'') (rows kept)) =
        Inr (- 8, sqrt (2 / 3)) \<and>
      a @ b @ c = [2, 0, 1] \<and> length a = 2 \<and> length (a @ b) = 2 \<and>
      distinct (a @ b @ c) \<and> set (a @ b @ c) = {0..<3} \<and>
      [''CCS'', ''CCO''] = map (\<lambda>i. feats ! i) a \<and>
      mset ([Str ''CCS'', Str ''CCO''] @ [] @ [Str ''CCC'']) =
        mset (map (\<lambda>r. vals r ''SMILES'') (rows kept)))"
proof -
  note run = docking_run[of "0::nat"]
  have name: "''P-gp'' \<notin> {''molecules'', ''SMILES''}" by simp
  from receptor_data_drops_zero_rows[OF run name] obtain kept feats seeded a b c where
    frame: "receptor_frame docking_table ''P-gp'' = Inr kept"
    and seeded: "reseed library_toolkit 1 = Inr seeded"
    and feats: "featurize library_toolkit (map (\<lambda>r. vals r ''molecules'') (rows kept)) =
          Inr feats"
    and fitted: "fit_transformer library_toolkit (map (\<lambda>r. vals r ''P-gp'') (rows kept)) =
          Inr (- 8, sqrt (2 / 3))"
    and positions: "a @ b @ c =
          shuffled_positions (draw library_toolkit) seeded (length (rows kept))"
    and la: "length a = (8 * length (rows kept)) div 10"
    and lab: "length (a @ b) = (9 * length (rows kept)) div 10"
    and dist: "distinct (a @ b @ c)"
    and cover: "set (a @ b @ c) = {0..<length (rows kept)}"
    and X: "ds_X \<lparr>ds_X = [''CCS'', ''CCO''],
                ds_y = [Flt (Num (- (1 / sqrt (2 / 3)))), Flt (Num (1 / sqrt (2 / 3)))],
                ds_ids = [Str ''CCS'', Str ''CCO''::string cell]\<rparr> = map (\<lambda>i. feats ! i) a"
    and ids: "mset (ds_ids \<lparr>ds_X = [''CCS'', ''CCO''],
                ds_y = [Flt (Num (- (1 / sqrt (2 / 3)))), Flt (Num (1 / sqrt (2 / 3)))],
                ds_ids = [Str ''CCS'', Str ''CCO'']\<rparr> @
              ds_ids \<lparr>ds_X = ([]::string list), ds_y = ([]::string cell list), ds_ids = []\<rparr> @
              ds_ids \<lparr>ds_X = [''CCC''], ds_y = [Flt (Num 0)], ds_ids = [Str ''CCC'']\<rparr>) =
          mset (map (\<lambda>r. vals r ''SMILES'') (rows kept))"
    apply (elim exE conjE)
    by (rule that, assumption+)
  have kept: "rows kept = [docking_row 0 ''CCO'' (-7), docking_row 2 ''CCC'' (-8),
                   docking_row 3 ''CCS'' (-9)]"
    using frame docking_frame by auto
  have len: "length (rows kept) = Suc (Suc (Suc 0))" using kept by simp
  have seed1: "seeded = Suc 0" using seeded docking_seed by simp
  have p: "a @ b @ c = [2, 0, 1]" using positions unfolding len seed1 docking_shuffle .
  have la2: "length a = 2" using la unfolding len by simp
  have lab2: "length (a @ b) = 2" using lab unfolding len by simp
  have cover3: "set (a @ b @ c) = {0..<3}" using cover unfolding len by (simp add: eval_nat_numeral)
  have X2: "[''CCS'', ''CCO''] = map (\<lambda>i. feats ! i) a" using X by simp
  have ids2: "mset ([Str ''CCS'', Str ''CCO''] @ [] @ [Str ''CCC'']) =
      mset (map (\<lambda>r. vals r ''SMILES'') (rows kept))"
    using ids by simp
  have "\<exists>kept feats a b c.
      receptor_frame docking_table ''P-gp'' = Inr kept \<and>
      rows kept = [docking_row 0 ''CCO'' (-7), docking_row 2 ''CCC'' (-8),
                   docking_row 3 ''CCS'' (-9)] \<and>
      reseed library_toolkit 1 = Inr (Suc 0) \<and>
      featurize library_toolkit (map (\<lambda>r. vals r ''molecules'') (rows kept)) = Inr feats \<and>
      fit_transformer library_toolkit (map (\<lambda>r. vals r ''P-gp'') (rows kept)) =
        Inr (- 8, sqrt (2 / 3)) \<and>
      a @ b @ c = [2, 0, 1] \<and> length a = 2 \<and> length (a @ b) = 2 \<and>
      distinct (a @ b @ c) \<and> set (a @ b @ c) = {0..<3} \<and>
      [''CCS'', ''CCO''] = map (\<lambda>i. feats ! i) a \<and>
      mset ([Str ''CCS'', Str ''CCO''] @ [] @ [Str ''CCC'']) =
        mset (map (\<lambda>r. vals r ''SMILES'') (rows kept))"
    apply (rule exI[of _ kept], rule exI[of _ feats])
    apply (rule exI[of _ a], rule exI[of _ b], rule exI[of _ c])
    apply (intro conjI)
    by (fact frame kept docking_seed feats fitted p la2 lab2 dist cover3 X2 ids2)+
  with name run show ?thesis by (intro conjI)
qed

text \<open>
  Claim C4 as stated fails for the labels the datasets hold. With the library's standard
  score as normalization, the table with receptor values -7, 0, -8 and -9 loses its 0 row,
  and the molecule whose value -8 is the mean of the rest is returned with the label 0.0
  exactly (here in the test set; it has that label in whichever partition the split puts
  it).
\<close>

theorem returned_label_zero_counterexample:
  "receptor_data library_toolkit 0 docking_table ''P-gp'' 1 =
     Inr (\<lparr>ds_X = [''CCS'', ''CCO''],
           ds_y = [Flt (Num (- (1 / sqrt (2 / 3)))), Flt (Num (1 / sqrt (2 / 3)))],
           ds_ids = [Str ''CCS'', Str ''CCO'']\<rparr>,
          \<lparr>ds_X = [], ds_y = [], ds_ids = []\<rparr>,
          \<lparr>ds_X = [''CCC''], ds_y = [Flt (Num 0)], ds_ids = [Str ''CCC'']\<rparr>,
          (- 8, sqrt (2 / 3)))"
  by (rule docking_run)

text \<open>
  Claim C6. Two calls of receptor_data with the same table, receptor column, featurizer
  and seed return the same result, whatever the state of the process-wide generator is at
  each call, because the split starts by seeding that generator with the seed. When the
  call returns, the generator has accepted the seed, and the rows of each partition are
  the kept rows at positions that only the seed and the number of kept rows decide: the
  positions shuffled from the seeded generator, up to 80% of them for train, from there
  to 90% for validation, and the rest for test.
\<close>

theorem receptor_data_seed_determined:
  "receptor_data tk g df receptor_name seed = receptor_data tk g' df receptor_name seed \<and>
   (\<forall>train_dataset valid_dataset test_dataset transformer.
      receptor_data tk g df receptor_name seed =
        Inr (train_dataset, valid_dataset, test_dataset, transformer) \<longrightarrow>
      (\<exists>kept feats seeded p.
         receptor_frame df receptor_name = Inr kept \<and>
         featurize tk (map (\<lambda>r. vals r ''molecules'') (rows kept)) = Inr feats \<and>
         reseed tk seed = Inr seeded \<and>
         p = shuffled_positions (draw tk) seeded (length (rows kept)) \<and>
         distinct p \<and> set p = {0..<length (rows kept)} \<and>
         ds_ids train_dataset =
           map (\<lambda>i. vals (rows kept ! i) ''SMILES'')
             (take ((8 * length (rows kept)) div 10) p) \<and>
         ds_ids valid_dataset =
           map (\<lambda>i. vals (rows kept ! i) ''SMILES'')
             (take ((9 * length (rows kept)) div 10 - (8 * length (rows kept)) div 10)
               (drop ((8 * length (rows kept)) div 10) p)) \<and>
         ds_ids test_dataset =
           map (\<lambda>i. vals (rows kept ! i) ''SMILES'')
             (drop ((9 * length (rows kept)) div 10) p) \<and>
         ds_X train_dataset =
           map (\<lambda>i. feats ! i) (take ((8 * length (rows kept)) div 10) p) \<and>
         ds_X valid_dataset =
           map (\<lambda>i. feats ! i)
             (take ((9 * length (rows kept)) div 10 - (8 * length (rows kept)) div 10)
               (drop ((8 * length (rows kept)) div 10) p)) \<and>
         ds_X test_dataset =
           map (\<lambda>i. feats ! i) (drop ((9 * length (rows kept)) div 10) p) \<and>
         ds_y train_dataset =
           map (\<lambda>i. transform_y tk transformer (vals (rows kept ! i) receptor_name))
             (take ((8 * length (rows kept)) div 10) p) \<and>
         ds_y valid_dataset =
           map (\<lambda>i. transform_y tk transformer (vals (rows kept ! i) receptor_name))
             (take ((9 * length (rows kept)) div 10 - (8 * length (rows kept)) div 10)
               (drop ((8 * length (rows kept)) div 10) p)) \<and>
         ds_y test_dataset =
           map (\<lambda>i. transform_y tk transformer (vals (rows kept ! i) receptor_name))
             (drop ((9 * length (rows kept)) div 10) p)))"
proof (intro conjI allI impI)
  have same: "train_valid_test_split tk g = train_valid_test_split tk g'"
    by (intro ext) (simp add: train_valid_test_split_def)
  show "receptor_data tk g df receptor_name seed = receptor_data tk g' df receptor_name seed"
    unfolding receptor_data_def same by (rule refl)
next
  fix train_dataset valid_dataset test_dataset transformer
  assume res: "receptor_data tk g df receptor_name seed =
        Inr (train_dataset, valid_dataset, test_dataset, transformer)"
  then obtain kept seeded where
    frame: "receptor_frame df receptor_name = Inr kept"
    and seeded: "reseed tk seed = Inr seeded"
    by (rule receptor_data_Inr)
  let ?n = "length (rows kept)"
  define p where "p = shuffled_positions (draw tk) seeded ?n"
  define a where "a = take ((8 * ?n) div 10) p"
  define b where "b = take ((9 * ?n) div 10 - (8 * ?n) div 10) (drop ((8 * ?n) div 10) p)"
  define c where "c = drop ((9 * ?n) div 10) p"
  note parts = returned_partitions[OF res frame seeded, folded p_def,
      folded a_def b_def c_def]
  from parts(3) obtain feats where
    feats: "featurize tk (map (\<lambda>r. vals r ''molecules'') (rows kept)) = Inr feats"
    and Xtr: "ds_X train_dataset = map (\<lambda>i. feats ! i) a"
    and Xva: "ds_X valid_dataset = map (\<lambda>i. feats ! i) b"
    and Xte: "ds_X test_dataset = map (\<lambda>i. feats ! i) c"
    by blast
  have pdef: "p = shuffled_positions (draw tk) seeded ?n"
    by (rule p_def)
  have dist: "distinct p" and cover: "set p = {0..<?n}"
    using parts(7) by simp_all
  have itr: "ds_ids train_dataset = map (\<lambda>i. vals (rows kept ! i) ''SMILES'') a"
    and iva: "ds_ids valid_dataset = map (\<lambda>i. vals (rows kept ! i) ''SMILES'') b"
    and ite: "ds_ids test_dataset = map (\<lambda>i. vals (rows kept ! i) ''SMILES'') c"
    using parts(5) by simp_all
  have ytr: "ds_y train_dataset =
       map (\<lambda>i. transform_y tk transformer (vals (rows kept ! i) receptor_name)) a"
    and yva: "ds_y valid_dataset =
       map (\<lambda>i. transform_y tk transformer (vals (rows kept ! i) receptor_name)) b"
    and yte: "ds_y test_dataset =
       map (\<lambda>i. transform_y tk transformer (vals (rows kept ! i) receptor_name)) c"
    using parts(4) by simp_all
  show "\<exists>kept feats seeded p.
         receptor_frame df receptor_name = Inr kept \<and>
         featurize tk (map (\<lambda>r. vals r ''molecules'') (rows kept)) = Inr feats \<and>
         reseed tk seed = Inr seeded \<and>
         p = shuffled_positions (draw tk) seeded (length (rows kept)) \<and>
         distinct p \<and> set p = {0..<length (rows kept)} \<and>
         ds_ids train_dataset =
           map (\<lambda>i. vals (rows kept ! i) ''SMILES'')
             (take ((8 * length (rows kept)) div 10) p) \<and>
         ds_ids valid_dataset =
           map (\<lambda>i. vals (rows kept ! i) ''SMILES'')
             (take ((9 * length (rows kept)) div 10 - (8 * length (rows kept)) div 10)
               (drop ((8 * length (rows kept)) div 10) p)) \<and>
         ds_ids test_dataset =
           map (\<lambda>i. vals (rows kept ! i) ''SMILES'')
             (drop ((9 * length (rows kept)) div 10) p) \<and>
         ds_X train_dataset =
           map (\<lambda>i. feats ! i) (take ((8 * length (rows kept)) div 10) p) \<and>
         ds_X valid_dataset =
           map (\<lambda>i. feats ! i)
             (take ((9 * length (rows kept)) div 10 - (8 * length (rows kept)) div 10)
               (drop ((8 * length (rows kept)) div 10) p)) \<and>
         ds_X test_dataset =
           map (\<lambda>i. feats ! i) (drop ((9 * length (rows kept)) div 10) p) \<and>
         ds_y train_dataset =
           map (\<lambda>i. transform_y tk transformer (vals (rows kept ! i) receptor_name))
             (take ((8 * length (rows kept)) div 10) p) \<and>
         ds_y valid_dataset =
           map (\<lambda>i. transform_y tk transformer (vals (rows kept ! i) receptor_name))
             (take ((9 * length (rows kept)) div 10 - (8 * length (rows kept)) div 10)
               (drop ((8 * length (rows kept)) div 10) p)) \<and>
         ds_y test_dataset =
           map (\<lambda>i. transform_y tk transformer (vals (rows kept ! i) receptor_name))
             (drop ((9 * length (rows kept)) div 10) p)"
    apply (rule exI[of _ kept], rule exI[of _ feats])
    apply (rule exI[of _ seeded], rule exI[of _ p])
    apply (fold a_def b_def c_def)
    apply (intro conjI)
    by (fact frame feats seeded pdef dist cover itr iva ite Xtr Xva Xte ytr yva yte)+
qed

theorem receptor_data_seed_determined_witness:
  "receptor_data library_toolkit 0 docking_table ''P-gp'' 1 =
     receptor_data library_toolkit 42 docking_table ''P-gp'' 1 \<and>
   receptor_data library_toolkit 42 docking_table ''P-gp'' 1 =
     Inr (\<lparr>ds_X = [''CCS'', ''CCO''],
           ds_y = [Flt (Num (- (1 / sqrt (2 / 3)))), Flt (Num (1 / sqrt (2 / 3)))],
           ds_ids = [Str ''CCS'', Str ''CCO'']\<rparr>,
          \<lparr>ds_X = [], ds_y = [], ds_ids = []\<rparr>,
          \<lparr>ds_X = [''CCC''], ds_y = [Flt (Num 0)], ds_ids = [Str ''CCC'']\<rparr>,
          (- 8, sqrt (2 / 3))) \<and>
   (\<exists>kept p.
      receptor_frame docking_table ''P-gp'' = Inr kept \<and>
      rows kept = [docking_row 0 ''CCO'' (-7), docking_row 2 ''CCC'' (-8),
                   docking_row 3 ''CCS'' (-9)] \<and>
      p = [2, 0, 1] \<and>
      [Str ''CCS'', Str ''CCO''] = map (\<lambda>i. vals (rows kept ! i) ''SMILES'') (take 2 p) \<and>
      [] = map (\<lambda>i. vals (rows kept ! i) ''SMILES'') (take 0 (drop 2 p)) \<and>
      [Str ''CCC''] = map (\<lambda>i. vals (rows kept ! i) ''SMILES'') (drop 2 p))"
proof -
  note both = receptor_data_seed_determined[of library_toolkit "0::nat" docking_table
      "''P-gp''" 1 42]
  have same: "receptor_data library_toolkit 0 docking_table ''P-gp'' 1 =
     receptor_data library_toolkit 42 docking_table ''P-gp'' 1"
    using both by (rule conjunct1)
  note run = docking_run[of "0::nat"]
  from conjunct2[OF both, rule_format, OF run] obtain kept feats seeded p where
    frame: "receptor_frame docking_table ''P-gp'' = Inr kept"
    and seeded: "reseed library_toolkit 1 = Inr seeded"
    and pdef: "p = shuffled_positions (draw library_toolkit) seeded (length (rows kept))"
    and itr: "ds_ids \<lparr>ds_X = [''CCS'', ''CCO''],
                ds_y = [Flt (Num (- (1 / sqrt (2 / 3)))), Flt (Num (1 / sqrt (2 / 3)))],
                ds_ids = [Str ''CCS'', Str ''CCO''::string cell]\<rparr> =
           map (\<lambda>i. vals (rows kept ! i) ''SMILES'')
             (take ((8 * length (rows kept)) div 10) p)"
    and iva: "ds_ids \<lparr>ds_X = ([]::string list), ds_y = ([]::string cell list),
                ds_ids = []\<rparr> =
           map (\<lambda>i. vals (rows kept ! i) ''SMILES'')
             (take ((9 * length (rows kept)) div 10 - (8 * length (rows kept)) div 10)
               (drop ((8 * length (rows kept)) div 10) p))"
    and ite: "ds_ids \<lparr>ds_X = [''CCC''], ds_y = [Flt (Num 0)],
                ds_ids = [Str ''CCC''::string cell]\<rparr> =
           map (\<lambda>i. vals (rows kept ! i) ''SMILES'')
             (drop ((9 * length (rows kept)) div 10) p)"
    apply (elim exE conjE)
    by (rule that, assumption+)
  have kept: "rows kept = [docking_row 0 ''CCO'' (-7), docking_row 2 ''CCC'' (-8),
                   docking_row 3 ''CCS'' (-9)]"
    using frame docking_frame by auto
  have len: "length (rows kept) = Suc (Suc (Suc 0))" using kept by simp
  have seed1: "seeded = Suc 0" using seeded docking_seed by simp
  have p: "p = [2, 0, 1]" using pdef unfolding len seed1 docking_shuffle .
  have c1: "(8 * Suc (Suc (Suc 0))) div 10 = (2::nat)" by simp
  have c2: "(9 * Suc (Suc (Suc 0))) div 10 - (2::nat) = 0" by simp
  have c3: "(9 * Suc (Suc (Suc 0))) div 10 = (2::nat)" by simp
  have itr2: "[Str ''CCS'', Str ''CCO''] =
      map (\<lambda>i. vals (rows kept ! i) ''SMILES'') (take 2 p)"
    using itr unfolding len c1 by simp
  have iva2: "[] = map (\<lambda>i. vals (rows kept ! i) ''SMILES'') (take 0 (drop 2 p))"
    by simp
  have ite2: "[Str ''CCC''] = map (\<lambda>i. vals (rows kept ! i) ''SMILES'') (drop 2 p)"
    using ite unfolding len c3 by simp
  have "\<exists>kept p.
      receptor_frame docking_table ''P-gp'' = Inr kept \<and>
      rows kept = [docking_row 0 ''CCO'' (-7), docking_row 2 ''CCC'' (-8),
                   docking_row 3 ''CCS'' (-9)] \<and>
      p = [2, 0, 1] \<and>
      [Str ''CCS'', Str ''CCO''] = map (\<lambda>i. vals (rows kept ! i) ''SMILES'') (take 2 p) \<and>
      [] = map (\<lambda>i. vals (rows kept ! i) ''SMILES'') (take 0 (drop 2 p)) \<and>
      [Str ''CCC''] = map (\<lambda>i. vals (rows kept ! i) ''SMILES'') (drop 2 p)"
    apply (rule exI[of _ kept], rule exI[of _ p])
    apply (intro conjI)
    by (fact frame kept p itr2 iva2 ite2)+
  with same docking_run[of "42::nat"] show ?thesis by (intro conjI)
qed


section \<open>Claims about set_seed\<close>

lemma run_calls_from:
  "run_calls env cs evs = (fst (run_calls env cs []), evs @ snd (run_calls env cs []))"
proof (induction cs arbitrary: evs)
  case Nil
  show ?case by simp
next
  case (Cons c cs)
  show ?case
  proof (cases "raises env c")
    case True
    then show ?thesis by simp
  next
    case False
    have "run_calls env (c # cs) evs = run_calls env cs (evs @ [Attempted c])"
      using False by simp
    also have "\<dots> = (fst (run_calls env cs []),
        (evs @ [Attempted c]) @ snd (run_calls env cs []))"
      by (rule Cons.IH)
    also have "\<dots> = (fst (run_calls env (c # cs) []), evs @ snd (run_calls env (c # cs) []))"
      using False Cons.IH[of "[Attempted c]"] by simp
    finally show ?thesis .
  qed
qed

text \<open>A guarded block never lets an exception out, and adds its own events to the log.\<close>

lemma try_except_from:
  "try_except (run_calls env cs) message evs =
     (None, evs @ snd (try_except (run_calls env cs) message []))"
proof -
  have "run_calls env cs evs = (fst (run_calls env cs []), evs @ snd (run_calls env cs []))"
    by (rule run_calls_from)
  then show ?thesis
    by (cases "fst (run_calls env cs [])"; cases "run_calls env cs []")
       (simp_all add: try_except_def)
qed

lemma set_seed_blocks:
  "set_seed env seed tensorflow pytorch =
     (None,
      snd (try_except (run_calls env (tensorflow_block env seed tensorflow))
             ''Please import Tensorflow as tf to set its seed.'' []) @
      snd (try_except (run_calls env (pytorch_block env seed pytorch))
             ''Please import PyTorch to set its seed.'' []) @
      snd (try_except (run_calls env (numpy_block seed))
             ''You must import numpy as np and random to set up seeds.'' []))"
proof -
  let ?b1 = "try_except (run_calls env (tensorflow_block env seed tensorflow))
             ''Please import Tensorflow as tf to set its seed.''"
  let ?b2 = "try_except (run_calls env (pytorch_block env seed pytorch))
             ''Please import PyTorch to set its seed.''"
  let ?b3 = "try_except (run_calls env (numpy_block seed))
             ''You must import numpy as np and random to set up seeds.''"
  define t1 where "t1 = snd (?b1 [])"
  define t2 where "t2 = snd (?b2 [])"
  define t3 where "t3 = snd (?b3 [])"
  have 1: "?b1 [] = (None, t1)"
    unfolding t1_def using try_except_from[of env _ _ "[]"] by simp
  have 2: "\<And>evs. ?b2 evs = (None, evs @ t2)"
    unfolding t2_def by (rule try_except_from)
  have 3: "\<And>evs. ?b3 evs = (None, evs @ t3)"
    unfolding t3_def by (rule try_except_from)
  have "set_seed env seed tensorflow pytorch = (None, t1 @ t2 @ t3)"
    by (simp add: set_seed_def and_then_def 1 2 3)
  then show ?thesis by (simp add: t1_def t2_def t3_def)
qed

lemma tensorflow_block_events:
  "set (snd (try_except (run_calls env (tensorflow_block env seed tensorflow)) message [])) \<subseteq>
     {Attempted ImportTensorflow, Attempted (TfRandomSetSeed seed), Printed message}"
  "Attempted ImportTensorflow \<in>
     set (snd (try_except (run_calls env (tensorflow_block env seed tensorflow)) message []))
   \<longleftrightarrow> tensorflow"
  "Printed message \<in>
     set (snd (try_except (run_calls env (tensorflow_block env seed tensorflow)) message []))
   \<longleftrightarrow> tensorflow \<and> (raises env ImportTensorflow \<or> raises env (TfRandomSetSeed seed))"
  "Attempted (TfRandomSetSeed seed) \<in>
     set (snd (try_except (run_calls env (tensorflow_block env seed tensorflow)) message []))
   \<longleftrightarrow> tensorflow \<and> \<not> raises env ImportTensorflow"
  by (auto simp: tensorflow_block_def try_except_def)

lemma pytorch_block_events:
  "set (snd (try_except (run_calls env (pytorch_block env seed pytorch)) message [])) \<subseteq>
     {Attempted ImportTorch, Attempted (TorchManualSeed seed), Attempted TorchCudaIsAvailable,
      Attempted (TorchCudaManualSeedAll seed), Attempted (SetCudnnDeterministic True),
      Attempted (SetCudnnBenchmark False), Printed message}"
  "Attempted ImportTorch \<in>
     set (snd (try_except (run_calls env (pytorch_block env seed pytorch)) message []))
   \<longleftrightarrow> pytorch"
  "Printed message \<in>
     set (snd (try_except (run_calls env (pytorch_block env seed pytorch)) message []))
   \<longleftrightarrow> pytorch \<and>
       (raises env ImportTorch \<or> raises env (TorchManualSeed seed) \<or>
        raises env TorchCudaIsAvailable \<or>
        cuda_is_available env \<and>
          (raises env (TorchCudaManualSeedAll seed) \<or> raises env (SetCudnnDeterministic True) \<or>
           raises env (SetCudnnBenchmark False)))"
  "Attempted (TorchManualSeed seed) \<in>
     set (snd (try_except (run_calls env (pytorch_block env seed pytorch)) message []))
   \<longleftrightarrow> pytorch \<and> \<not> raises env ImportTorch"
  "Attempted (TorchCudaManualSeedAll seed) \<in>
     set (snd (try_except (run_calls env (pytorch_block env seed pytorch)) message []))
   \<longleftrightarrow> pytorch \<and> \<not> raises env ImportTorch \<and> \<not> raises env (TorchManualSeed seed) \<and>
       \<not> raises env TorchCudaIsAvailable \<and> cuda_is_available env"
  by (auto simp: pytorch_block_def try_except_def)

lemma numpy_block_events:
  "Attempted ImportNumpy \<in> set (snd (try_except (run_calls env (numpy_block seed)) message []))"
  "Attempted (NpRandomSeed seed) \<in>
     set (snd (try_except (run_calls env (numpy_block seed)) message []))
   \<longleftrightarrow> \<not> raises env ImportNumpy \<and> \<not> raises env ImportRandom"
  "Attempted (RandomSeed seed) \<in>
     set (snd (try_except (run_calls env (numpy_block seed)) message []))
   \<longleftrightarrow> \<not> raises env ImportNumpy \<and> \<not> raises env ImportRandom \<and> \<not> raises env (NpRandomSeed seed)"
  "Printed message \<in> set (snd (try_except (run_calls env (numpy_block seed)) message []))
   \<longleftrightarrow> raises env ImportNumpy \<or> raises env ImportRandom \<or> raises env (NpRandomSeed seed) \<or>
       raises env (RandomSeed seed)"
  "Attempted ImportRandom \<in> set (snd (try_except (run_calls env (numpy_block seed)) message []))
   \<longleftrightarrow> \<not> raises env ImportNumpy"
  by (auto simp: numpy_block_def try_except_def)

text \<open>
  Claim C9, as the code has it. set_seed never lets an exception reach its caller. It has
  three guarded blocks, and a failure in one never keeps the next from being attempted:
  TensorFlow is attempted exactly when its flag is set, PyTorch exactly when its flag is
  set, and the import of the array library always, whatever the flags and whatever failed
  before. Inside a block a statement is attempted exactly when the ones before it in the
  block have succeeded. The array library and Python's own generator share the third
  block: the generator is seeded only after the two imports and the seeding of the array
  library have succeeded. A failure in a block prints that block's message, and nothing
  else prints it: the TensorFlow message for a failure of the TensorFlow import or
  seeding, the PyTorch message for a failure of the PyTorch import, seeding, CUDA query
  or, with CUDA, one of the three CUDA settings, and the third message for a failure of
  one of the four statements of the third block.
\<close>

theorem set_seed_blocks_are_isolated:
  "fst (set_seed env seed tensorflow pytorch) = None \<and>
   (Attempted ImportTensorflow \<in> set (snd (set_seed env seed tensorflow pytorch)) \<longleftrightarrow>
      tensorflow) \<and>
   (Attempted (TfRandomSetSeed seed) \<in> set (snd (set_seed env seed tensorflow pytorch)) \<longleftrightarrow>
      tensorflow \<and> \<not> raises env ImportTensorflow) \<and>
   (Attempted ImportTorch \<in> set (snd (set_seed env seed tensorflow pytorch)) \<longleftrightarrow> pytorch) \<and>
   (Attempted (TorchManualSeed seed) \<in> set (snd (set_seed env seed tensorflow pytorch)) \<longleftrightarrow>
      pytorch \<and> \<not> raises env ImportTorch) \<and>
   (Attempted (TorchCudaManualSeedAll seed) \<in> set (snd (set_seed env seed tensorflow pytorch))
      \<longleftrightarrow> pytorch \<and> \<not> raises env ImportTorch \<and> \<not> raises env (TorchManualSeed seed) \<and>
          \<not> raises env TorchCudaIsAvailable \<and> cuda_is_available env) \<and>
   Attempted ImportNumpy \<in> set (snd (set_seed env seed tensorflow pytorch)) \<and>
   (Attempted ImportRandom \<in> set (snd (set_seed env seed tensorflow pytorch)) \<longleftrightarrow>
      \<not> raises env ImportNumpy) \<and>
   (Attempted (NpRandomSeed seed) \<in> set (snd (set_seed env seed tensorflow pytorch)) \<longleftrightarrow>
      \<not> raises env ImportNumpy \<and> \<not> raises env ImportRandom) \<and>
   (Attempted (RandomSeed seed) \<in> set (snd (set_seed env seed tensorflow pytorch)) \<longleftrightarrow>
      \<not> raises env ImportNumpy \<and> \<not> raises env ImportRandom \<and>
      \<not> raises env (NpRandomSeed seed)) \<and>
   (Printed ''Please import Tensorflow as tf to set its seed.''
      \<in> set (snd (set_seed env seed tensorflow pytorch)) \<longleftrightarrow>
      tensorflow \<and> (raises env ImportTensorflow \<or> raises env (TfRandomSetSeed seed))) \<and>
   (Printed ''Please import PyTorch to set its seed.''
      \<in> set (snd (set_seed env seed tensorflow pytorch)) \<longleftrightarrow>
      pytorch \<and>
       (raises env ImportTorch \<or> raises env (TorchManualSeed seed) \<or>
        raises env TorchCudaIsAvailable \<or>
        cuda_is_available env \<and>
          (raises env (TorchCudaManualSeedAll seed) \<or> raises env (SetCudnnDeterministic True) \<or>
           raises env (SetCudnnBenchmark False)))) \<and>
   (Printed ''You must import numpy as np and random to set up seeds.''
      \<in> set (snd (set_seed env seed tensorflow pytorch)) \<longleftrightarrow>
      raises env ImportNumpy \<or> raises env ImportRandom \<or> raises env (NpRandomSeed seed) \<or>
      raises env (RandomSeed seed))"
proof -
  let ?m1 = "''Please import Tensorflow as tf to set its seed.''"
  let ?m2 = "''Please import PyTorch to set its seed.''"
  let ?m3 = "''You must import numpy as np and random to set up seeds.''"
  let ?B1 = "set (snd (try_except (run_calls env (tensorflow_block env seed tensorflow)) ?m1 []))"
  let ?B2 = "set (snd (try_except (run_calls env (pytorch_block env seed pytorch)) ?m2 []))"
  let ?B3 = "set (snd (try_except (run_calls env (numpy_block seed)) ?m3 []))"
  have all: "set (snd (set_seed env seed tensorflow pytorch)) = ?B1 \<union> ?B2 \<union> ?B3"
    and none: "fst (set_seed env seed tensorflow pytorch) = None"
    by (simp_all add: set_seed_blocks Un_assoc)
  have b1: "?B1 \<subseteq> {Attempted ImportTensorflow, Attempted (TfRandomSetSeed seed), Printed ?m1}"
    by (rule tensorflow_block_events(1))
  have b2: "?B2 \<subseteq> {Attempted ImportTorch, Attempted (TorchManualSeed seed),
      Attempted TorchCudaIsAvailable, Attempted (TorchCudaManualSeedAll seed),
      Attempted (SetCudnnDeterministic True), Attempted (SetCudnnBenchmark False), Printed ?m2}"
    by (rule pytorch_block_events(1))
  have b3: "?B3 \<subseteq> {Attempted ImportNumpy, Attempted ImportRandom, Attempted (NpRandomSeed seed),
      Attempted (RandomSeed seed), Printed ?m3}"
    by (auto simp: numpy_block_def try_except_def split: if_splits)
  have tf: "Attempted ImportTensorflow \<notin> ?B2" "Attempted ImportTensorflow \<notin> ?B3"
      "Attempted (TfRandomSetSeed seed) \<notin> ?B2" "Attempted (TfRandomSetSeed seed) \<notin> ?B3"
    and pt: "Attempted ImportTorch \<notin> ?B1" "Attempted ImportTorch \<notin> ?B3"
      "Attempted (TorchManualSeed seed) \<notin> ?B1" "Attempted (TorchManualSeed seed) \<notin> ?B3"
      "Attempted (TorchCudaManualSeedAll seed) \<notin> ?B1"
      "Attempted (TorchCudaManualSeedAll seed) \<notin> ?B3"
    and np: "Attempted (NpRandomSeed seed) \<notin> ?B1" "Attempted (NpRandomSeed seed) \<notin> ?B2"
      "Attempted ImportRandom \<notin> ?B1" "Attempted ImportRandom \<notin> ?B2"
    and rs: "Attempted (RandomSeed seed) \<notin> ?B1" "Attempted (RandomSeed seed) \<notin> ?B2"
    and p1: "Printed ?m1 \<notin> ?B2" "Printed ?m1 \<notin> ?B3"
    and p2: "Printed ?m2 \<notin> ?B1" "Printed ?m2 \<notin> ?B3"
    and p3: "Printed ?m3 \<notin> ?B1" "Printed ?m3 \<notin> ?B2"
    using b1 b2 b3 by auto
  have e1: "Attempted ImportTensorflow \<in> ?B1 \<longleftrightarrow> tensorflow"
    by (rule tensorflow_block_events(2))
  have e2: "Attempted (TfRandomSetSeed seed) \<in> ?B1 \<longleftrightarrow>
      tensorflow \<and> \<not> raises env ImportTensorflow"
    by (rule tensorflow_block_events(4))
  have e3: "Printed ?m1 \<in> ?B1 \<longleftrightarrow>
      tensorflow \<and> (raises env ImportTensorflow \<or> raises env (TfRandomSetSeed seed))"
    by (rule tensorflow_block_events(3))
  have e4: "Attempted ImportTorch \<in> ?B2 \<longleftrightarrow> pytorch"
    by (rule pytorch_block_events(2))
  have e5: "Attempted (TorchManualSeed seed) \<in> ?B2 \<longleftrightarrow> pytorch \<and> \<not> raises env ImportTorch"
    by (rule pytorch_block_events(4))
  have e6: "Attempted (TorchCudaManualSeedAll seed) \<in> ?B2 \<longleftrightarrow>
      pytorch \<and> \<not> raises env ImportTorch \<and> \<not> raises env (TorchManualSeed seed) \<and>
      \<not> raises env TorchCudaIsAvailable \<and> cuda_is_available env"
    by (rule pytorch_block_events(5))
  have e7: "Printed ?m2 \<in> ?B2 \<longleftrightarrow>
      pytorch \<and>
       (raises env ImportTorch \<or> raises env (TorchManualSeed seed) \<or>
        raises env TorchCudaIsAvailable \<or>
        cuda_is_available env \<and>
          (raises env (TorchCudaManualSeedAll seed) \<or> raises env (SetCudnnDeterministic True) \<or>
           raises env (SetCudnnBenchmark False)))"
    by (rule pytorch_block_events(3))
  note e8 = numpy_block_events[where env = env and seed = seed and message = ?m3]
  show ?thesis
    unfolding all Un_iff
    by (simp only: none tf pt np rs p1 p2 p3 e1 e2 e3 e4 e5 e6 e7 e8 simp_thms)
qed

theorem set_seed_blocks_are_isolated_witness:
  "fst (set_seed all_installed 7 True True) = None \<and>
   Attempted ImportTensorflow \<in> set (snd (set_seed all_installed 7 True True)) \<and>
   Attempted ImportTorch \<in> set (snd (set_seed all_installed 7 True True)) \<and>
   Attempted ImportNumpy \<in> set (snd (set_seed all_installed 7 True True)) \<and>
   Attempted (RandomSeed 7) \<in> set (snd (set_seed all_installed 7 True True)) \<and>
   Printed ''Please import PyTorch to set its seed.''
     \<notin> set (snd (set_seed all_installed 7 True True)) \<and>
   Printed ''You must import numpy as np and random to set up seeds.''
     \<notin> set (snd (set_seed all_installed 7 True True)) \<and>
   fst (set_seed without_torch 7 True True) = None \<and>
   Attempted ImportTorch \<in> set (snd (set_seed without_torch 7 True True)) \<and>
   Attempted (TorchManualSeed 7) \<notin> set (snd (set_seed without_torch 7 True True)) \<and>
   Printed ''Please import PyTorch to set its seed.''
     \<in> set (snd (set_seed without_torch 7 True True)) \<and>
   Printed ''Please import Tensorflow as tf to set its seed.''
     \<notin> set (snd (set_seed without_torch 7 True True)) \<and>
   Attempted ImportNumpy \<in> set (snd (set_seed without_torch 7 True True)) \<and>
   Attempted (RandomSeed 7) \<in> set (snd (set_seed without_torch 7 True True))"
proof -
  have installed: "\<not> raises all_installed ImportTensorflow"
    "\<not> raises all_installed (TfRandomSetSeed 7)" "\<not> raises all_installed ImportTorch"
    "\<not> raises all_installed (TorchManualSeed 7)" "\<not> raises all_installed TorchCudaIsAvailable"
    "\<not> raises all_installed ImportNumpy" "\<not> raises all_installed ImportRandom"
    "\<not> raises all_installed (NpRandomSeed 7)" "\<not> raises all_installed (RandomSeed 7)"
    "\<not> cuda_is_available all_installed"
    by (simp_all add: all_installed_def)
  have missing: "\<not> raises without_torch ImportTensorflow"
    "\<not> raises without_torch (TfRandomSetSeed 7)" "raises without_torch ImportTorch"
    "\<not> raises without_torch ImportNumpy" "\<not> raises without_torch ImportRandom"
    "\<not> raises without_torch (NpRandomSeed 7)" "\<not> raises without_torch (RandomSeed 7)"
    by (simp_all add: without_torch_def all_installed_def)
  show ?thesis
    using set_seed_blocks_are_isolated[of all_installed 7 True True]
      set_seed_blocks_are_isolated[of without_torch 7 True True]
    by (simp add: installed missing)
qed

text \<open>
  Claim C9 as stated fails inside the third block. With every backend installed and the
  seed -1, which the array library refuses, the seeding of the array library is attempted
  and raises, the message is printed, and Python's own generator is never seeded.
\<close>

theorem random_not_seeded_counterexample:
  "set_seed all_installed (- 1) True True =
     (None,
      [Attempted ImportTensorflow, Attempted (TfRandomSetSeed (- 1)),
       Attempted ImportTorch, Attempted (TorchManualSeed (- 1)), Attempted TorchCudaIsAvailable,
       Attempted ImportNumpy, Attempted ImportRandom, Attempted (NpRandomSeed (- 1)),
       Printed ''You must import numpy as np and random to set up seeds.'']) \<and>
   Attempted (RandomSeed (- 1)) \<notin> set (snd (set_seed all_installed (- 1) True True))"
  by (simp add: set_seed_def and_then_def try_except_def tensorflow_block_def
      pytorch_block_def numpy_block_def all_installed_def)

section \<open>Claims about the plotting helpers\<close>

lemma plot_validation_with_metric:
  assumes "ns ''metric'' = Some obj" and "obj ''name'' = Some ylabel"
    and "trained_model \<noteq> []"
  shows "\<exists>figure. plot_validation ns trained_model = Inr figure"
  using assms
  by (cases trained_model) (simp_all add: plot_validation_def lookup_name_def getattr_def Let_def)

lemma plot_predictions_returns:
  assumes "predict lib m training_data transformer = Inr train_preds"
    and "predict lib m test_data transformer = Inr test_preds"
    and "untransform lib transformer training_data = Inr train_plot"
    and "untransform lib transformer test_data = Inr test_plot"
    and "length train_plot = length train_preds" and "length test_plot = length test_preds"
  shows "plot_predictions lib m training_data test_data transformer =
           Inr [PlotLine train_plot train_plot ''True values'',
                Scatter train_plot train_preds ''train preds'',
                Scatter test_plot test_preds ''test preds'', Legend]"
  using assms by (simp add: plot_predictions_def scatter_def)

text \<open>
  Claim C8. plot_validation, run in the module's own global namespace, raises NameError
  for every score history, empty or not: the name \<^verbatim>\<open>metric\<close> it reads for the axis label is
  bound nowhere.
\<close>

theorem plot_validation_raises_NameError:
  "plot_validation utils_globals trained_model = Inl (NameError ''metric'')"
  by (simp add: plot_validation_def lookup_name_def utils_globals_def)


end
